theory Spec2Isabelle
  imports Complex_Main "HOL-Library.Sublist"
begin

section \<open>Python values, errors and the outside world\<close>

text \<open>
  The development embeds two modules of langcheck:
  \<^verbatim>\<open>langcheck/metrics/en/pairwise_text_quality.py\<close> (the function \<^verbatim>\<open>pairwise_comparison\<close>) and
  \<^verbatim>\<open>langcheck/eval/en/reference_free_text_quality.py\<close> (the function \<^verbatim>\<open>sentiment\<close> with its two
  scoring paths). Python strings are \<open>string\<close>, Python floats are \<open>real\<close> (the scores
  \<open>0.0\<close>, \<open>0.5\<close> and \<open>1.0\<close> are exact in both), a raised exception is the left
  summand of the result, and everything a call does besides returning (remote requests,
  printing, progress bars, loading the local model) is recorded in an explicit \<open>world\<close>.

  A name of the source that starts with an underscore cannot be an Isabelle name. The nested
  functions \<^verbatim>\<open>_prompt\<close>, \<^verbatim>\<open>_prompt_with_reference\<close>, \<^verbatim>\<open>_prompt_with_sources\<close> and
  \<^verbatim>\<open>_function_call_prompt\<close> of \<^verbatim>\<open>pairwise_comparison\<close> are \<open>pairwise_prompt\<close>,
  \<open>pairwise_prompt_with_reference\<close>, \<open>pairwise_prompt_with_sources\<close> and
  \<open>pairwise_function_call_prompt\<close>; \<^verbatim>\<open>_prompt\<close> and \<^verbatim>\<open>_sentiment_assessment_to_score\<close> of
  \<^verbatim>\<open>_sentiment_openai\<close> are \<open>sentiment_prompt\<close> and \<open>sentiment_assessment_to_score\<close>;
  \<^verbatim>\<open>_sentiment_local\<close> and \<^verbatim>\<open>_sentiment_openai\<close> are \<open>sentiment_local\<close> and
  \<open>sentiment_openai\<close>.
\<close>

datatype error =
    AssertionError string
  | TypeError
  | TransportError
  | MalformedJudgeResponse
  | UnrecognizedAssessment

text \<open>
  The annotation \<^verbatim>\<open>List[str] | str\<close>: a list of strings or one string. Iterating a Python
  string yields its characters, each a string of length one, and \<^verbatim>\<open>len\<close> counts them.
\<close>

datatype str_or_list = Str string | StrList "string list"

fun iter_items :: "str_or_list \<Rightarrow> string list" where
  "iter_items (StrList xs) = xs"
| "iter_items (Str s) = map (\<lambda>c. [c]) s"

fun py_len :: "str_or_list \<Rightarrow> nat" where
  "py_len (StrList xs) = length xs"
| "py_len (Str s) = length s"

subsection \<open>The remote chat-completion interface\<close>

text \<open>
  One entry of the \<^verbatim>\<open>functions\<close> argument: the name and description of the operation, and
  its single required string property with its description and \<^verbatim>\<open>enum\<close>.
\<close>

record function_schema =
  fs_name :: string
  fs_description :: string
  fs_argument :: string
  fs_argument_description :: string
  fs_enum :: "string list"

text \<open>
  The keyword arguments of one call, in the order the call site writes them. \<open>Messages\<close>
  holds (role, content) pairs, \<open>FunctionCall\<close> the name of the forced operation.
\<close>

datatype kwarg =
    StrArg string
  | Messages "(string \<times> string) list"
  | Functions "function_schema list"
  | FunctionCall string

type_synonym kwargs = "(string \<times> kwarg) list"

text \<open>
  What the call gives back: it raises, or it returns a completion whose message has an
  optional free-text content and optional function-call arguments, already decoded from
  JSON to a dictionary (\<open>None\<close> where the field is missing or does not decode).
\<close>

datatype response =
    Raised error
  | Completion "string option" "(string \<times> string) list option"

text \<open>
  The remote model is a parameter of every function that calls it. Its answer may depend on
  the request and on how many requests were issued before.
\<close>

type_synonym remote = "nat \<Rightarrow> kwargs \<Rightarrow> response"

datatype printed = Scores "real list" | Explanations "string list"

record world =
  requests :: "kwargs list"
  stdout :: "printed list"
  progress_bars :: "(string \<times> nat) list"
  sentiment_model_loaded :: bool

definition chat_completion_create :: "remote \<Rightarrow> kwargs \<Rightarrow> world \<Rightarrow> response \<times> world" where
  "chat_completion_create remote kw w =
     (remote (length (requests w)) kw, w\<lparr>requests := requests w @ [kw]\<rparr>)"

text \<open>
  \<^verbatim>\<open>f(k1=v1, ..., **d)\<close>: Python raises \<^verbatim>\<open>TypeError\<close> at the call site, before the callee
  runs, when a key of \<open>d\<close> repeats a keyword written out in the call.
\<close>

definition merge_kwargs :: "kwargs \<Rightarrow> (string \<times> string) list \<Rightarrow> error + kwargs" where
  "merge_kwargs fixed d =
     (if \<exists>k \<in> set (map fst d). k \<in> set (map fst fixed) then Inl TypeError
      else Inr (fixed @ map (\<lambda>(k, v). (k, StrArg v)) d))"

definition nl :: string where
  "nl = [CHR 0x0A]"

fun join_nl :: "string list \<Rightarrow> string" where
  "join_nl [] = []"
| "join_nl [l] = l"
| "join_nl (l # ls) = l @ nl @ join_nl ls"

section \<open>Sentiment (reference\_free\_text\_quality.py)\<close>

text \<open>
  \<^verbatim>\<open>EvalValue\<close> is imported from \<^verbatim>\<open>langcheck.eval.eval_value\<close>; the record has the fields
  that \<^verbatim>\<open>sentiment\<close> passes to its constructor.
\<close>

record EvalValue =
  eval_metric_name :: string
  eval_prompts :: "string list option"
  eval_generated_outputs :: "string list"
  eval_reference_outputs :: "string list option"
  eval_sources :: "string list option"
  eval_metric_values :: "real list"
  eval_language :: string

text \<open>
  The local classifier (tokenizer and Twitter-roBERTa model) is a parameter: it maps the
  batch to one row of three logits per output, for the classes negative, neutral and
  positive. \<^verbatim>\<open>softmax(..., dim=1)\<close> normalises each row.
\<close>

type_synonym classifier = "string list \<Rightarrow> (real \<times> real \<times> real) list"

fun softmax_row :: "real \<times> real \<times> real \<Rightarrow> real \<times> real \<times> real" where
  "softmax_row (l0, l1, l2) =
     (exp l0 / (exp l0 + exp l1 + exp l2),
      exp l1 / (exp l0 + exp l1 + exp l2),
      exp l2 / (exp l0 + exp l1 + exp l2))"

fun sentiment_column :: "real \<times> real \<times> real \<Rightarrow> real" where
  "sentiment_column (p0, p1, p2) = p1 / 2 + p2"

definition sentiment_local ::
  "classifier \<Rightarrow> string list \<Rightarrow> world \<Rightarrow> (error + real list) \<times> world" where
  "sentiment_local model generated_outputs w =
     (let w1 = (if \<not> sentiment_model_loaded w then w\<lparr>sentiment_model_loaded := True\<rparr> else w);
          probs = map softmax_row (model generated_outputs)
      in (Inr (map sentiment_column probs), w1))"

definition sentiment_prompt :: "string \<Rightarrow> string" where
  "sentiment_prompt gen_output = join_nl [
      '''',
      ''        You are evaluating the sentiment of a submitted statement. Here is the'',
      ''        data:'',
      ''        [BEGIN DATA]'',
      ''        ************'',
      ''        [Submission]: '' @ gen_output,
      ''        ************'',
      ''        [END DATA]'',
      '''',
      ''        Determine the predominant sentiment of the submitted statement. The'',
      ''        available assessments are:'',
      ''        `Positive` - The submitted statement has a predominantly positive'',
      ''        sentiment'',
      ''        `Negative` - The submitted statement has a predominantly negative'',
      ''        sentiment'',
      ''        `Neutral` - The submitted statement has neither a positive nor negative'',
      ''        sentiment'',
      ''        '']"

text \<open>
  The argument is what \<^verbatim>\<open>function_args.get("sentiment")\<close> returns: \<open>None\<close> when the key is
  missing, which equals none of the three labels.
\<close>

definition sentiment_assessment_to_score :: "string option \<Rightarrow> error + real" where
  "sentiment_assessment_to_score assessment =
     (if assessment = Some ''Positive'' then Inr 1
      else if assessment = Some ''Neutral'' then Inr (1 / 2)
      else if assessment = Some ''Negative'' then Inr 0
      else Inl (AssertionError ''OpenAI returned an unrecognized sentiment assessment :(''))"

definition sentiment_functions :: "function_schema list" where
  "sentiment_functions =
     [\<lparr>fs_name = ''save_sentiment_assessment'',
       fs_description = ''Save's a statement's sentiment assessment.'',
       fs_argument = ''sentiment'',
       fs_argument_description = ''The sentiment assessment of the statement'',
       fs_enum = [''Positive'', ''Negative'', ''Neutral'']\<rparr>]"

text \<open>The keyword arguments of the \<^verbatim>\<open>openai.ChatCompletion.create\<close> call for one output.\<close>

definition sentiment_call_kwargs ::
  "(string \<times> string) list option \<Rightarrow> string \<Rightarrow> error + kwargs" where
  "sentiment_call_kwargs openai_args gen =
     (let messages = [(''user'', sentiment_prompt gen)];
          functions = sentiment_functions
      in case openai_args of
           None \<Rightarrow>
             Inr [(''model'', StrArg ''gpt-3.5-turbo''),
                  (''messages'', Messages messages),
                  (''functions'', Functions functions),
                  (''function_call'', FunctionCall ''save_sentiment_assessment'')]
         | Some d \<Rightarrow>
             merge_kwargs
               [(''messages'', Messages messages),
                (''functions'', Functions functions),
                (''function_call'', FunctionCall ''save_sentiment_assessment'')] d)"

text \<open>
  The loop of \<^verbatim>\<open>_sentiment_openai\<close> over the remaining outputs, with the scores appended so
  far. Any exception ends it: nothing catches one. The exception that Python raises when the
  response has no function-call arguments or they do not decode (\<^verbatim>\<open>KeyError\<close>,
  \<^verbatim>\<open>JSONDecodeError\<close>) is \<open>MalformedJudgeResponse\<close> here.
\<close>

fun sentiment_openai_loop ::
  "remote \<Rightarrow> (string \<times> string) list option \<Rightarrow> string list \<Rightarrow> real list \<Rightarrow> world
     \<Rightarrow> (error + real list) \<times> world" where
  "sentiment_openai_loop remote openai_args [] score_list w = (Inr score_list, w)"
| "sentiment_openai_loop remote openai_args (gen # gens) score_list w =
     (case sentiment_call_kwargs openai_args gen of
        Inl e \<Rightarrow> (Inl e, w)
      | Inr kw \<Rightarrow>
          (case chat_completion_create remote kw w of
             (Raised e, w') \<Rightarrow> (Inl e, w')
           | (Completion content None, w') \<Rightarrow> (Inl MalformedJudgeResponse, w')
           | (Completion content (Some function_args), w') \<Rightarrow>
               (case sentiment_assessment_to_score (map_of function_args ''sentiment'') of
                  Inl e \<Rightarrow> (Inl e, w')
                | Inr score \<Rightarrow>
                    sentiment_openai_loop remote openai_args gens (score_list @ [score]) w')))"

definition sentiment_openai ::
  "remote \<Rightarrow> string list \<Rightarrow> (string \<times> string) list option \<Rightarrow> world
     \<Rightarrow> (error + real list) \<times> world" where
  "sentiment_openai remote generated_outputs openai_args w =
     sentiment_openai_loop remote openai_args generated_outputs [] w"

definition sentiment ::
  "classifier \<Rightarrow> remote \<Rightarrow> string list \<Rightarrow> string list option \<Rightarrow> string
     \<Rightarrow> (string \<times> string) list option \<Rightarrow> world \<Rightarrow> (error + EvalValue) \<times> world" where
  "sentiment model remote generated_outputs prompts model_type openai_args w =
     (if model_type \<notin> set [''local'', ''openai'']
      then (Inl (AssertionError
              ''Unsupported model type. The supported ones are [\"local\", \"openai\"]''), w)
      else
        (case (if model_type = ''local'' then sentiment_local model generated_outputs w
               else sentiment_openai remote generated_outputs openai_args w) of
           (Inl e, w') \<Rightarrow> (Inl e, w')
         | (Inr scores, w') \<Rightarrow>
             (Inr \<lparr>eval_metric_name = ''sentiment'',
                   eval_prompts = prompts,
                   eval_generated_outputs = generated_outputs,
                   eval_reference_outputs = None,
                   eval_sources = None,
                   eval_metric_values = scores,
                   eval_language = ''en''\<rparr>, w')))"

section \<open>Pairwise comparison (pairwise\_text\_quality.py)\<close>

subsection \<open>The prompt templates\<close>

definition pairwise_prompt :: "string \<Rightarrow> string \<Rightarrow> string \<Rightarrow> string" where
  "pairwise_prompt gen_output_a gen_output_b user_query = join_nl [
      '''',
      ''        You are comparing the quality of two responses to a user's query. Here'',
      ''        is the data:'',
      ''        [BEGIN DATA]'',
      ''        ************'',
      ''        [User Query]: '' @ user_query,
      ''        ************'',
      ''        [Response A]: '' @ gen_output_a,
      ''        ************'',
      ''        [Response B]: '' @ gen_output_b,
      ''        ************'',
      ''        [END DATA]'',
      '''',
      ''        Determine which of the responses is a better response to the user's'',
      ''        query. Consider factors such as helpfulness, correctness, and relevance'',
      ''        in your assessment. Do not allow the order in which the responses were'',
      ''        presented to influence your assessment. Do not allow the length of the'',
      ''        responses to influence your assessment. The available assessments are:'',
      ''        `Response A` - Response A is a better response.'',
      ''        `Response B` - Response B is a better response.'',
      ''        `Tie` - The two responses are roughly equal in quality.'',
      '''',
      ''        Take a deep breath and work on this problem step-by-step.'',
      ''        '']"

definition pairwise_prompt_with_reference ::
  "string \<Rightarrow> string \<Rightarrow> string \<Rightarrow> string \<Rightarrow> string" where
  "pairwise_prompt_with_reference gen_output_a gen_output_b user_query ref_output = join_nl [
      '''',
      ''        You are comparing the quality of two responses to a user's query. The'',
      ''        ideal response to the user's query is also provided to you as a'',
      ''        reference. Here is the data:'',
      ''        [BEGIN DATA]'',
      ''        ************'',
      ''        [Ideal Response]: '' @ ref_output,
      ''        ************'',
      ''        [User Query]: '' @ user_query,
      ''        ************'',
      ''        [Response A]: '' @ gen_output_a,
      ''        ************'',
      ''        [Response B]: '' @ gen_output_b,
      ''        ************'',
      ''        [END DATA]'',
      '''',
      ''        Determine which of the responses is a better response to the user's'',
      ''        query. Consider factors such as helpfulness, correctness, and relevance'',
      ''        in your assessment, using the provided Ideal Response as a reference. Do'',
      ''        not allow the order in which the responses were presented to influence'',
      ''        your assessment. Do not allow the length of the responses to influence'',
      ''        your assessment. The available assessments are:'',
      ''        `Response A` - Response A is a better response.'',
      ''        `Response B` - Response B is a better response.'',
      ''        `Tie` - The two responses are roughly equal in quality.'',
      '''',
      ''        Take a deep breath and work on this problem step-by-step.'',
      ''        '']"

text \<open>
  The lines of the source-grounded template before and after the line that carries the
  sources.
\<close>

definition sources_lines_before :: "string \<Rightarrow> string list" where
  "sources_lines_before user_query = [
      '''',
      ''        You are comparing the quality of two responses to a user's query. Source'',
      ''        text that is supposedly relevant to the user's query is also provided'',
      ''        to you as a reference (the source text may contain some duplication).'',
      ''        Here is the data:'',
      ''        [BEGIN DATA]'',
      ''        ************'',
      ''        [User Query]: '' @ user_query,
      ''        ************'']"

definition sources_lines_after :: "string \<Rightarrow> string \<Rightarrow> string list" where
  "sources_lines_after gen_output_a gen_output_b = [
      ''        ************'',
      ''        [Response A]: '' @ gen_output_a,
      ''        ************'',
      ''        [Response B]: '' @ gen_output_b,
      ''        ************'',
      ''        [END DATA]'',
      '''',
      ''        Determine which of the responses is a better response to the user's'',
      ''        query. Consider factors such as helpfulness, correctness, and relevance'',
      ''        in your assessment, using the provided Source as a reference. Do not'',
      ''        allow the order in which the responses were presented to influence your'',
      ''        assessment. Do not allow the length of the responses to influence your'',
      ''        assessment. The available assessments are:'',
      ''        `Response A` - Response A is a better response.'',
      ''        `Response B` - Response B is a better response.'',
      ''        `Tie` - The two responses are roughly equal in quality.'',
      '''',
      ''        Take a deep breath and work on this problem step-by-step.'',
      ''        '']"

definition pairwise_prompt_with_sources ::
  "string \<Rightarrow> string \<Rightarrow> string \<Rightarrow> string \<Rightarrow> string option \<Rightarrow> string" where
  "pairwise_prompt_with_sources gen_output_a gen_output_b user_query source_1 source_2 =
     (let sources = (case source_2 of
                       Some s2 \<Rightarrow> source_1 @ nl @ s2
                     | None \<Rightarrow> source_1)
      in join_nl (sources_lines_before user_query
                  @ [''        [Source]: '' @ sources]
                  @ sources_lines_after gen_output_a gen_output_b))"

definition pairwise_function_call_prompt :: "string \<Rightarrow> string" where
  "pairwise_function_call_prompt long_assessment = join_nl [
      '''',
      ''        The following is an assessment on whether Response A or Response B is'',
      ''        the better response to the user's query:'',
      ''        ************'',
      ''        [Assessment]: '' @ long_assessment,
      ''        ************'',
      '''',
      ''        Save the resulting assessment. The available assessments are:'',
      ''        `Response A`'',
      ''        `Response B`'',
      ''        `Tie`'',
      ''        '']"

definition pairwise_comparison_assessment_to_score :: "(string \<times> real) list" where
  "pairwise_comparison_assessment_to_score =
     [(''Response B'', 1), (''Tie'', 1 / 2), (''Response A'', 0)]"

text \<open>
  \<^verbatim>\<open>prompt_fn\<close> is one of the three template functions, and \<^verbatim>\<open>prompt_fn(*data_instance)\<close>
  applies it to the tuple that \<^verbatim>\<open>zip\<close> yields: three strings for \<^verbatim>\<open>_prompt\<close>, four for
  \<^verbatim>\<open>_prompt_with_reference\<close>, four or five for \<^verbatim>\<open>_prompt_with_sources\<close> (whose last
  parameter defaults to \<^verbatim>\<open>None\<close>). Any other number of arguments is a \<^verbatim>\<open>TypeError\<close>.
\<close>

datatype prompt_fn = Prompt | PromptWithReference | PromptWithSources

fun call_prompt_fn :: "prompt_fn \<Rightarrow> string list \<Rightarrow> error + string" where
  "call_prompt_fn Prompt [a, b, q] = Inr (pairwise_prompt a b q)"
| "call_prompt_fn PromptWithReference [a, b, q, r] =
     Inr (pairwise_prompt_with_reference a b q r)"
| "call_prompt_fn PromptWithSources [a, b, q, s1] =
     Inr (pairwise_prompt_with_sources a b q s1 None)"
| "call_prompt_fn PromptWithSources [a, b, q, s1, s2] =
     Inr (pairwise_prompt_with_sources a b q s1 (Some s2))"
| "call_prompt_fn fn args = Inl TypeError"

text \<open>\<^verbatim>\<open>zip\<close> of three, four and five iterables: it stops with the shortest.\<close>

definition zip3 :: "string list \<Rightarrow> string list \<Rightarrow> string list \<Rightarrow> string list list" where
  "zip3 xs ys zs = map (\<lambda>(x, y, z). [x, y, z]) (zip xs (zip ys zs))"

definition zip4 ::
  "string list \<Rightarrow> string list \<Rightarrow> string list \<Rightarrow> string list \<Rightarrow> string list list" where
  "zip4 xs ys zs us = map (\<lambda>(x, y, z, u). [x, y, z, u]) (zip xs (zip ys (zip zs us)))"

definition zip5 ::
  "string list \<Rightarrow> string list \<Rightarrow> string list \<Rightarrow> string list \<Rightarrow> string list
     \<Rightarrow> string list list" where
  "zip5 xs ys zs us vs =
     map (\<lambda>(x, y, z, u, v). [x, y, z, u, v]) (zip xs (zip ys (zip zs (zip us vs))))"

text \<open>
  The \<^verbatim>\<open>if\<close>/\<^verbatim>\<open>elif\<close>/\<^verbatim>\<open>else\<close> of \<^verbatim>\<open>pairwise_comparison\<close> that sets \<^verbatim>\<open>prompt_fn\<close> and
  \<^verbatim>\<open>data_iter\<close>, once for the whole batch.
\<close>

definition select_context ::
  "str_or_list \<Rightarrow> str_or_list \<Rightarrow> str_or_list \<Rightarrow> string list option \<Rightarrow> string list option
     \<Rightarrow> string list option \<Rightarrow> error + prompt_fn \<times> string list list" where
  "select_context generated_outputs_a generated_outputs_b prompts sources_a sources_b
       reference_outputs =
     (if sources_a \<noteq> None \<or> sources_b \<noteq> None then
        (case sources_a of
           None \<Rightarrow>
             (case sources_b of
                None \<Rightarrow> Inl (AssertionError [])
              | Some sb \<Rightarrow>
                  Inr (PromptWithSources,
                       zip4 (iter_items generated_outputs_a) (iter_items generated_outputs_b)
                            (iter_items prompts) sb))
         | Some sa \<Rightarrow>
             (case sources_b of
                None \<Rightarrow>
                  Inr (PromptWithSources,
                       zip4 (iter_items generated_outputs_a) (iter_items generated_outputs_b)
                            (iter_items prompts) sa)
              | Some sb \<Rightarrow>
                  Inr (PromptWithSources,
                       zip5 (iter_items generated_outputs_a) (iter_items generated_outputs_b)
                            (iter_items prompts) sa sb)))
      else
        (case reference_outputs of
           Some refs \<Rightarrow>
             Inr (PromptWithReference,
                  zip4 (iter_items generated_outputs_a) (iter_items generated_outputs_b)
                       (iter_items prompts) refs)
         | None \<Rightarrow>
             Inr (Prompt,
                  zip3 (iter_items generated_outputs_a) (iter_items generated_outputs_b)
                       (iter_items prompts))))"

subsection \<open>The evaluator\<close>

text \<open>The connection handle \<^verbatim>\<open>openai.OpenAI\<close> is opaque.\<close>

typedecl OpenAI

text \<open>
  The fields of an \<^verbatim>\<open>OpenAIBasedEvaluator\<close>: the keyword arguments of its constructor, as
  \<^verbatim>\<open>pairwise_comparison\<close> writes them.
\<close>

record OpenAIBasedEvaluator =
  ev_assessment_to_score_mapping :: "(string \<times> real) list"
  ev_function_name :: string
  ev_function_description :: string
  ev_argument_name :: string
  ev_argument_description :: string
  ev_client_type :: string
  ev_client :: "OpenAI option"
  ev_openai_args :: "(string \<times> string) list option"

text \<open>
  Modelled from the spec: the method \<^verbatim>\<open>get_score\<close> of \<^verbatim>\<open>OpenAIBasedEvaluator\<close>
  (module \<^verbatim>\<open>langcheck.metrics.en._openai\<close>) is not among the sources. The spec's JudgeClient
  and AssessmentScorer describe it: the judgment prompt is sent and the reply's free text is
  the explanation; the extraction prompt wraps that explanation and is sent with a schema of
  one operation whose only argument is one of the labels, the model being forced to invoke
  it; a transport failure surfaces to the caller; a missing or undecodable structured
  argument is \<open>MalformedJudgeResponse\<close>; a label without a score in the mapping is
  \<open>UnrecognizedAssessment\<close>, never a default score; otherwise the result is the label's score
  and the explanation. The pass-through parameters are forwarded verbatim, and a fixed
  default model identity is used when they are absent.
\<close>

definition evaluator_call_kwargs :: "OpenAIBasedEvaluator \<Rightarrow> kwargs \<Rightarrow> kwargs" where
  "evaluator_call_kwargs ev fixed =
     (case ev_openai_args ev of
        None \<Rightarrow> (''model'', StrArg ''gpt-3.5-turbo'') # fixed
      | Some d \<Rightarrow> fixed @ map (\<lambda>(k, v). (k, StrArg v)) d)"

definition judgment_kwargs :: "OpenAIBasedEvaluator \<Rightarrow> string \<Rightarrow> kwargs" where
  "judgment_kwargs ev prompt =
     evaluator_call_kwargs ev [(''messages'', Messages [(''user'', prompt)])]"

definition extraction_kwargs :: "OpenAIBasedEvaluator \<Rightarrow> string \<Rightarrow> kwargs" where
  "extraction_kwargs ev prompt =
     evaluator_call_kwargs ev
       [(''messages'', Messages [(''user'', prompt)]),
        (''functions'', Functions
           [\<lparr>fs_name = ev_function_name ev,
             fs_description = ev_function_description ev,
             fs_argument = ev_argument_name ev,
             fs_argument_description = ev_argument_description ev,
             fs_enum = map fst (ev_assessment_to_score_mapping ev)\<rparr>]),
        (''function_call'', FunctionCall (ev_function_name ev))]"

definition get_score ::
  "remote \<Rightarrow> OpenAIBasedEvaluator \<Rightarrow> string \<Rightarrow> (string \<Rightarrow> string) \<Rightarrow> world
     \<Rightarrow> (error + real \<times> string) \<times> world" where
  "get_score remote ev prompt function_call_prompt_template w =
     (case chat_completion_create remote (judgment_kwargs ev prompt) w of
        (Raised e, w1) \<Rightarrow> (Inl e, w1)
      | (Completion None arguments, w1) \<Rightarrow> (Inl MalformedJudgeResponse, w1)
      | (Completion (Some raw_explanation) arguments, w1) \<Rightarrow>
          (case chat_completion_create remote
                  (extraction_kwargs ev (function_call_prompt_template raw_explanation)) w1 of
             (Raised e, w2) \<Rightarrow> (Inl e, w2)
           | (Completion content None, w2) \<Rightarrow> (Inl MalformedJudgeResponse, w2)
           | (Completion content (Some function_args), w2) \<Rightarrow>
               (case map_of function_args (ev_argument_name ev) of
                  None \<Rightarrow> (Inl MalformedJudgeResponse, w2)
                | Some label \<Rightarrow>
                    (case map_of (ev_assessment_to_score_mapping ev) label of
                       None \<Rightarrow> (Inl UnrecognizedAssessment, w2)
                     | Some score \<Rightarrow> (Inr (score, raw_explanation), w2)))))"

subsection \<open>The orchestrating function\<close>

text \<open>
  Modelled from the spec: \<^verbatim>\<open>tqdm_wrapper\<close> (module \<^verbatim>\<open>langcheck.utils.progess_bar\<close>) is not
  among the sources. The spec keeps progress reporting outside the core contract: the wrapper
  hands the iterable on unchanged, and the world records the bar with its description and
  its total.
\<close>

definition tqdm_wrapper :: "'a list \<Rightarrow> string \<Rightarrow> nat \<Rightarrow> world \<Rightarrow> 'a list \<times> world" where
  "tqdm_wrapper iterable desc total_items w =
     (iterable, w\<lparr>progress_bars := progress_bars w @ [(desc, total_items)]\<rparr>)"

text \<open>
  The \<^verbatim>\<open>for\<close> loop over the remaining data instances, with the two lists as appended so
  far. An exception of \<^verbatim>\<open>prompt_fn\<close> or \<^verbatim>\<open>get_score\<close> ends the loop and the function.
\<close>

fun score_loop ::
  "remote \<Rightarrow> OpenAIBasedEvaluator \<Rightarrow> prompt_fn \<Rightarrow> string list list \<Rightarrow> real list \<Rightarrow> string list
     \<Rightarrow> world \<Rightarrow> (error + real list \<times> string list) \<times> world" where
  "score_loop remote ev fn [] score_list explanation_list w =
     (Inr (score_list, explanation_list), w)"
| "score_loop remote ev fn (data_instance # rest) score_list explanation_list w =
     (case call_prompt_fn fn data_instance of
        Inl e \<Rightarrow> (Inl e, w)
      | Inr prompt \<Rightarrow>
          (case get_score remote ev prompt pairwise_function_call_prompt w of
             (Inl e, w') \<Rightarrow> (Inl e, w')
           | (Inr (score, explanation), w') \<Rightarrow>
               score_loop remote ev fn rest (score_list @ [score])
                 (explanation_list @ [explanation]) w'))"

text \<open>
  \<open>oai_evaluator\<close> is the constructor call of \<^verbatim>\<open>pairwise_comparison\<close>.
  \<^verbatim>\<open>pairwise_comparison\<close> is annotated \<^verbatim>\<open>-> None\<close> and has no \<^verbatim>\<open>return\<close> statement: what it
  gives its caller is Python's \<^verbatim>\<open>None\<close>, here \<open>None\<close> of the type of a result list. The two
  lists go to standard output.
\<close>

definition oai_evaluator ::
  "string \<Rightarrow> OpenAI option \<Rightarrow> (string \<times> string) list option \<Rightarrow> OpenAIBasedEvaluator" where
  "oai_evaluator model_type openai_client openai_args =
     \<lparr>ev_assessment_to_score_mapping = pairwise_comparison_assessment_to_score,
      ev_function_name = ''save_pairwise_comparison_assessment'',
      ev_function_description = ''Saves a pairwise comparison assessment.'',
      ev_argument_name = ''pairwise_comparison'',
      ev_argument_description = ''The pairwise comparison assessment'',
      ev_client_type = model_type,
      ev_client = openai_client,
      ev_openai_args = openai_args\<rparr>"

definition pairwise_comparison ::
  "remote \<Rightarrow> str_or_list \<Rightarrow> str_or_list \<Rightarrow> str_or_list \<Rightarrow> string list option
     \<Rightarrow> string list option \<Rightarrow> string list option \<Rightarrow> string \<Rightarrow> OpenAI option
     \<Rightarrow> (string \<times> string) list option \<Rightarrow> world
     \<Rightarrow> (error + (real \<times> string) list option) \<times> world" where
  "pairwise_comparison remote generated_outputs_a generated_outputs_b prompts sources_a
       sources_b reference_outputs model_type openai_client openai_args w =
     (if model_type \<notin> set [''openai'', ''azure_openai'']
      then (Inl (AssertionError
              ''Unsupported model type. The supported ones are [\"openai\", \"azure_openai\"]''),
            w)
      else
        (case select_context generated_outputs_a generated_outputs_b prompts sources_a
                sources_b reference_outputs of
           Inl e \<Rightarrow> (Inl e, w)
         | Inr (fn, data_iter) \<Rightarrow>
             (case tqdm_wrapper data_iter ''Calculating scores'' (py_len prompts) w of
                (iterable, w1) \<Rightarrow>
                  (case score_loop remote
                          (oai_evaluator model_type openai_client openai_args)
                          fn iterable [] [] w1 of
                     (Inl e, w2) \<Rightarrow> (Inl e, w2)
                   | (Inr (score_list, explanation_list), w2) \<Rightarrow>
                       (Inr None,
                        w2\<lparr>stdout := stdout w2
                              @ [Scores score_list, Explanations explanation_list]\<rparr>)))))"

text \<open>
  The sequences that \<open>select_context\<close> hands to \<^verbatim>\<open>zip\<close>: both output sequences and the
  prompts always, the source sequences that are not \<^verbatim>\<open>None\<close> when there is one, and the
  reference outputs only when there is no source sequence.
\<close>

definition zipped_sequences ::
  "str_or_list \<Rightarrow> str_or_list \<Rightarrow> str_or_list \<Rightarrow> string list option \<Rightarrow> string list option
     \<Rightarrow> string list option \<Rightarrow> string list list" where
  "zipped_sequences generated_outputs_a generated_outputs_b prompts sources_a sources_b
       reference_outputs =
     [iter_items generated_outputs_a, iter_items generated_outputs_b, iter_items prompts]
     @ (if sources_a \<noteq> None \<or> sources_b \<noteq> None
        then (case sources_a of None \<Rightarrow> [] | Some sa \<Rightarrow> [sa])
             @ (case sources_b of None \<Rightarrow> [] | Some sb \<Rightarrow> [sb])
        else (case reference_outputs of None \<Rightarrow> [] | Some refs \<Rightarrow> [refs]))"

section \<open>Scripted collaborators\<close>

text \<open>
  Concrete stand-ins for the outside world, on which the theorems below are instantiated:
  a world in which nothing has happened yet; a judge that answers a request without a
  function schema with a fixed free text and a request with one by invoking the operation
  with a fixed label; a judge whose label is read from a list at the position of the item
  (the judge raises when the list is exhausted); and a classifier that gives every output
  the same three logits.
\<close>

definition initial_world :: world where
  "initial_world =
     \<lparr>requests = [], stdout = [], progress_bars = [], sentiment_model_loaded = False\<rparr>"

definition constant_judge :: "string \<Rightarrow> string \<Rightarrow> string \<Rightarrow> remote" where
  "constant_judge argument label explanation n kw =
     (case map_of kw ''functions'' of
        None \<Rightarrow> Completion (Some explanation) None
      | Some f \<Rightarrow> Completion None (Some [(argument, label)]))"

definition scripted_judge :: "string \<Rightarrow> nat \<Rightarrow> string list \<Rightarrow> remote" where
  "scripted_judge argument calls_per_item labels n kw =
     (case map_of kw ''functions'' of
        None \<Rightarrow> Completion (Some ''Considered.'') None
      | Some f \<Rightarrow>
          (if n div calls_per_item < length labels
           then Completion None (Some [(argument, labels ! (n div calls_per_item))])
           else Raised TransportError))"

definition flat_classifier :: classifier where
  "flat_classifier generated_outputs = map (\<lambda>g. (0, 0, 0)) generated_outputs"

section \<open>Auxiliary lemmas\<close>

subsection \<open>Joining lines\<close>

lemma join_nl_Cons: "ls \<noteq> [] \<Longrightarrow> join_nl (l # ls) = l @ nl @ join_nl ls"
  by (cases ls) simp_all

lemma join_nl_append:
  "xs \<noteq> [] \<Longrightarrow> ys \<noteq> [] \<Longrightarrow> join_nl (xs @ ys) = join_nl xs @ nl @ join_nl ys"
proof (induction xs rule: join_nl.induct)
  case 1 then show ?case by simp
next
  case (2 l) then show ?case by (simp add: join_nl_Cons)
next
  case (3 l v va)
  then show ?case by simp
qed

lemma before_nonempty: "sources_lines_before q \<noteq> []"
  by (simp add: sources_lines_before_def)

lemma after_nonempty: "sources_lines_after a b \<noteq> []"
  by (simp add: sources_lines_after_def)

lemma with_sources_shape:
  "pairwise_prompt_with_sources a b q s1 s2 =
     join_nl (sources_lines_before q) @ nl @ ''        [Source]: ''
       @ (case s2 of Some s \<Rightarrow> s1 @ nl @ s | None \<Rightarrow> s1)
       @ nl @ join_nl (sources_lines_after a b)"
  by (simp add: pairwise_prompt_with_sources_def Let_def join_nl_append before_nonempty
        after_nonempty join_nl_Cons)

subsection \<open>Softmax rows\<close>

lemma softmax_row_bounds:
  "sentiment_column (softmax_row r) \<ge> 0 \<and> sentiment_column (softmax_row r) \<le> 1"
proof -
  obtain l0 l1 l2 where r: "r = (l0, l1, l2)" by (cases r) auto
  define z where "z = exp l0 + exp l1 + exp l2"
  have zpos: "z > 0" unfolding z_def by (simp add: add_pos_pos)
  have eq: "sentiment_column (softmax_row r) = (exp l1 / 2 + exp l2) / z"
    by (simp add: r z_def add_divide_distrib)
  have num0: "0 \<le> exp l1 / 2 + exp l2" by (simp add: add_nonneg_nonneg)
  have numz: "exp l1 / 2 + exp l2 \<le> z"
  proof -
    have "exp l1 / 2 \<le> exp l1" by simp
    moreover have "0 \<le> exp l0" by simp
    ultimately show ?thesis unfolding z_def by linarith
  qed
  show ?thesis using zpos num0 numz by (simp add: eq)
qed

lemma softmax_row_probability:
  "(case softmax_row (l0, l1, l2) of
      (p0, p1, p2) \<Rightarrow> 0 < p0 \<and> 0 < p1 \<and> 0 < p2 \<and> p0 + p1 + p2 = 1)"
proof -
  define z where "z = exp l0 + exp l1 + exp l2"
  have zpos: "z > 0" unfolding z_def by (simp add: add_pos_pos)
  have "exp l0 / z + exp l1 / z + exp l2 / z = (exp l0 + exp l1 + exp l2) / z"
    by (simp add: add_divide_distrib)
  also have "\<dots> = 1" using zpos by (simp add: z_def)
  finally have sum: "exp l0 / z + exp l1 / z + exp l2 / z = 1" .
  show ?thesis using zpos sum by (simp add: z_def)
qed

subsection \<open>The sentiment loop\<close>

lemma sentiment_loop_append:
  "sentiment_openai_loop remote oa (xs @ ys) sl w =
     (case sentiment_openai_loop remote oa xs sl w of
        (Inl e, w') \<Rightarrow> (Inl e, w')
      | (Inr sl', w') \<Rightarrow> sentiment_openai_loop remote oa ys sl' w')"
  by (induction xs arbitrary: sl w)
     (auto split: sum.splits prod.splits response.splits option.splits)

lemma sentiment_loop_unrecognized:
  assumes kw: "sentiment_call_kwargs oa g = Inr kw"
    and reply: "remote (length (requests w)) kw = Completion c (Some fa)"
    and bad: "map_of fa ''sentiment'' \<notin> {Some ''Positive'', Some ''Neutral'', Some ''Negative''}"
  shows "sentiment_openai_loop remote oa (g # gs) sl w =
           (Inl (AssertionError ''OpenAI returned an unrecognized sentiment assessment :(''),
            w\<lparr>requests := requests w @ [kw]\<rparr>)"
  using assms
  by (simp add: chat_completion_create_def sentiment_assessment_to_score_def)

lemma sentiment_openai_unrecognized:
  assumes k: "k < length outs"
    and prefix: "sentiment_openai remote (take k outs) oa w = (Inr scores, w')"
    and kw: "sentiment_call_kwargs oa (outs ! k) = Inr kw"
    and reply: "remote (length (requests w')) kw = Completion c (Some fa)"
    and bad: "map_of fa ''sentiment'' \<notin> {Some ''Positive'', Some ''Neutral'', Some ''Negative''}"
  shows "sentiment_openai remote outs oa w =
           (Inl (AssertionError ''OpenAI returned an unrecognized sentiment assessment :(''),
            w'\<lparr>requests := requests w' @ [kw]\<rparr>)"
proof -
  have split: "outs = take k outs @ (outs ! k) # drop (Suc k) outs"
    using k by (simp add: id_take_nth_drop)
  have "sentiment_openai remote outs oa w =
          sentiment_openai_loop remote oa (take k outs @ (outs ! k) # drop (Suc k) outs) [] w"
    unfolding sentiment_openai_def using split by simp
  also have "\<dots> = sentiment_openai_loop remote oa ((outs ! k) # drop (Suc k) outs) scores w'"
    using prefix unfolding sentiment_openai_def by (simp add: sentiment_loop_append)
  also have "\<dots> = (Inl (AssertionError ''OpenAI returned an unrecognized sentiment assessment :(''),
            w'\<lparr>requests := requests w' @ [kw]\<rparr>)"
    using kw reply bad by (rule sentiment_loop_unrecognized)
  finally show ?thesis .
qed

lemma sentiment_loop_requests:
  "\<exists>rs. requests (snd (sentiment_openai_loop remote oa gs sl w)) = requests w @ rs
     \<and> (\<forall>kw \<in> set rs. \<exists>g \<in> set gs. sentiment_call_kwargs oa g = Inr kw)"
proof (induction gs arbitrary: sl w)
  case Nil
  then show ?case by simp
next
  case (Cons g gs)
  show ?case
  proof (cases "sentiment_call_kwargs oa g")
    case (Inl e)
    then show ?thesis by simp
  next
    case (Inr kw)
    define w1 where "w1 = w\<lparr>requests := requests w @ [kw]\<rparr>"
    show ?thesis
    proof (cases "\<exists>sl'. sentiment_openai_loop remote oa (g # gs) sl w =
                    sentiment_openai_loop remote oa gs sl' w1")
      case True
      then obtain sl' where eq: "sentiment_openai_loop remote oa (g # gs) sl w =
                    sentiment_openai_loop remote oa gs sl' w1" by blast
      from Cons.IH [of sl' w1] obtain rs where rs:
        "requests (snd (sentiment_openai_loop remote oa gs sl' w1)) = requests w1 @ rs"
        "\<forall>kw \<in> set rs. \<exists>g \<in> set gs. sentiment_call_kwargs oa g = Inr kw" by blast
      have "requests (snd (sentiment_openai_loop remote oa (g # gs) sl w)) = requests w @ (kw # rs)"
        using rs(1) unfolding eq w1_def by simp
      moreover have "\<forall>k \<in> set (kw # rs). \<exists>g' \<in> set (g # gs). sentiment_call_kwargs oa g' = Inr k"
        using rs(2) Inr by auto
      ultimately show ?thesis by blast
    next
      case False
      then have "snd (sentiment_openai_loop remote oa (g # gs) sl w) = w1"
        using Inr
        by (auto simp: chat_completion_create_def w1_def
            split: sum.splits prod.splits response.splits option.splits)
      then have "requests (snd (sentiment_openai_loop remote oa (g # gs) sl w)) = requests w @ [kw]"
        by (simp add: w1_def)
      moreover have "\<forall>k \<in> set [kw]. \<exists>g' \<in> set (g # gs). sentiment_call_kwargs oa g' = Inr k"
        using Inr by simp
      ultimately show ?thesis by blast
    qed
  qed
qed

lemma sentiment_first_request:
  assumes "sentiment_call_kwargs oa g = Inr kw"
  shows "\<exists>rs. requests (snd (sentiment_openai_loop remote oa (g # gs) sl w)) = requests w @ kw # rs"
proof -
  define w1 where "w1 = w\<lparr>requests := requests w @ [kw]\<rparr>"
  show ?thesis
  proof (cases "\<exists>sl'. sentiment_openai_loop remote oa (g # gs) sl w =
                    sentiment_openai_loop remote oa gs sl' w1")
    case True
    then obtain sl' where eq: "sentiment_openai_loop remote oa (g # gs) sl w =
                    sentiment_openai_loop remote oa gs sl' w1" by blast
    from sentiment_loop_requests [of remote oa gs sl' w1] obtain rs where
      "requests (snd (sentiment_openai_loop remote oa gs sl' w1)) = requests w1 @ rs" by blast
    then show ?thesis unfolding eq w1_def by simp
  next
    case False
    then have "snd (sentiment_openai_loop remote oa (g # gs) sl w) = w1"
      using assms
      by (auto simp: chat_completion_create_def w1_def
          split: sum.splits prod.splits response.splits option.splits)
    then show ?thesis by (simp add: w1_def)
  qed
qed

subsection \<open>The evaluator and the scoring loop\<close>

lemma get_score_eval:
  assumes "remote (length (requests w)) (judgment_kwargs ev p) = Completion (Some e) a"
    and "remote (Suc (length (requests w))) (extraction_kwargs ev (f e)) = Completion c (Some fa)"
    and "map_of fa (ev_argument_name ev) = Some l"
  shows "get_score remote ev p f w =
           ((case map_of (ev_assessment_to_score_mapping ev) l of
               None \<Rightarrow> Inl UnrecognizedAssessment
             | Some s \<Rightarrow> Inr (s, e)),
            w\<lparr>requests := requests w @ [judgment_kwargs ev p, extraction_kwargs ev (f e)]\<rparr>)"
  using assms
  by (simp add: get_score_def chat_completion_create_def split: option.splits)

lemma get_score_Inr:
  assumes "get_score remote ev p f w = (Inr (s, e), w')"
  shows "(\<exists>a c fa l.
            remote (length (requests w)) (judgment_kwargs ev p) = Completion (Some e) a
          \<and> remote (Suc (length (requests w))) (extraction_kwargs ev (f e))
              = Completion c (Some fa)
          \<and> map_of fa (ev_argument_name ev) = Some l
          \<and> map_of (ev_assessment_to_score_mapping ev) l = Some s)
       \<and> w' = w\<lparr>requests := requests w @ [judgment_kwargs ev p, extraction_kwargs ev (f e)]\<rparr>"
  using assms
  by (auto simp: get_score_def chat_completion_create_def
      split: response.splits option.splits)

lemma score_loop_append:
  "score_loop remote ev fn (xs @ ys) sl el w =
     (case score_loop remote ev fn xs sl el w of
        (Inl e, w') \<Rightarrow> (Inl e, w')
      | (Inr (sl', el'), w') \<Rightarrow> score_loop remote ev fn ys sl' el' w')"
  by (induction xs arbitrary: sl el w) (auto split: sum.splits prod.splits)

lemma score_loop_Inr:
  assumes "score_loop remote ev fn ds sl el w = (Inr (sl', el'), w')"
  shows "\<exists>scores expls.
           sl' = sl @ scores \<and> el' = el @ expls
         \<and> length scores = length ds \<and> length expls = length ds
         \<and> stdout w' = stdout w \<and> progress_bars w' = progress_bars w
         \<and> sentiment_model_loaded w' = sentiment_model_loaded w
         \<and> length (requests w') = length (requests w) + 2 * length ds
         \<and> (\<forall>i < length ds. \<exists>p a c fa l.
               call_prompt_fn fn (ds ! i) = Inr p
             \<and> remote (length (requests w) + 2 * i) (judgment_kwargs ev p)
                 = Completion (Some (expls ! i)) a
             \<and> remote (length (requests w) + 2 * i + 1)
                 (extraction_kwargs ev (pairwise_function_call_prompt (expls ! i)))
                 = Completion c (Some fa)
             \<and> map_of fa (ev_argument_name ev) = Some l
             \<and> map_of (ev_assessment_to_score_mapping ev) l = Some (scores ! i))"
  using assms
proof (induction ds arbitrary: sl el w)
  case Nil
  then show ?case by simp
next
  case (Cons d ds)
  from Cons.prems obtain p where p: "call_prompt_fn fn d = Inr p"
    by (auto split: sum.splits)
  from Cons.prems p obtain s e w1 where
    gs: "get_score remote ev p pairwise_function_call_prompt w = (Inr (s, e), w1)"
    and rest: "score_loop remote ev fn ds (sl @ [s]) (el @ [e]) w1 = (Inr (sl', el'), w')"
    by (auto split: sum.splits prod.splits)
  from get_score_Inr [OF gs] obtain a c fa l where
    j: "remote (length (requests w)) (judgment_kwargs ev p) = Completion (Some e) a"
    and x: "remote (Suc (length (requests w)))
              (extraction_kwargs ev (pairwise_function_call_prompt e)) = Completion c (Some fa)"
    and l: "map_of fa (ev_argument_name ev) = Some l"
    and s: "map_of (ev_assessment_to_score_mapping ev) l = Some s"
    and w1: "w1 = w\<lparr>requests := requests w
                 @ [judgment_kwargs ev p, extraction_kwargs ev (pairwise_function_call_prompt e)]\<rparr>"
    by blast
  from Cons.IH [OF rest] obtain scores expls where ih:
    "sl' = (sl @ [s]) @ scores" "el' = (el @ [e]) @ expls"
    "length scores = length ds" "length expls = length ds"
    "stdout w' = stdout w1" "progress_bars w' = progress_bars w1"
    "sentiment_model_loaded w' = sentiment_model_loaded w1"
    "length (requests w') = length (requests w1) + 2 * length ds"
    and items: "\<forall>i < length ds. \<exists>p a c fa l.
               call_prompt_fn fn (ds ! i) = Inr p
             \<and> remote (length (requests w1) + 2 * i) (judgment_kwargs ev p)
                 = Completion (Some (expls ! i)) a
             \<and> remote (length (requests w1) + 2 * i + 1)
                 (extraction_kwargs ev (pairwise_function_call_prompt (expls ! i)))
                 = Completion c (Some fa)
             \<and> map_of fa (ev_argument_name ev) = Some l
             \<and> map_of (ev_assessment_to_score_mapping ev) l = Some (scores ! i)"
    by blast
  have len1: "length (requests w1) = length (requests w) + 2" by (simp add: w1)
  have all: "\<forall>i < length (d # ds). \<exists>p a c fa l.
               call_prompt_fn fn ((d # ds) ! i) = Inr p
             \<and> remote (length (requests w) + 2 * i) (judgment_kwargs ev p)
                 = Completion (Some ((e # expls) ! i)) a
             \<and> remote (length (requests w) + 2 * i + 1)
                 (extraction_kwargs ev (pairwise_function_call_prompt ((e # expls) ! i)))
                 = Completion c (Some fa)
             \<and> map_of fa (ev_argument_name ev) = Some l
             \<and> map_of (ev_assessment_to_score_mapping ev) l = Some ((s # scores) ! i)"
  proof (intro allI impI)
    fix i assume i: "i < length (d # ds)"
    show "\<exists>p a c fa l.
               call_prompt_fn fn ((d # ds) ! i) = Inr p
             \<and> remote (length (requests w) + 2 * i) (judgment_kwargs ev p)
                 = Completion (Some ((e # expls) ! i)) a
             \<and> remote (length (requests w) + 2 * i + 1)
                 (extraction_kwargs ev (pairwise_function_call_prompt ((e # expls) ! i)))
                 = Completion c (Some fa)
             \<and> map_of fa (ev_argument_name ev) = Some l
             \<and> map_of (ev_assessment_to_score_mapping ev) l = Some ((s # scores) ! i)"
    proof (cases i)
      case 0
      then show ?thesis using p j x l s by simp
    next
      case (Suc k)
      then have k: "k < length ds" using i by simp
      have idx: "length (requests w1) + 2 * k = length (requests w) + 2 * Suc k"
        using len1 by simp
      from items k have "\<exists>p a c fa l.
               call_prompt_fn fn (ds ! k) = Inr p
             \<and> remote (length (requests w1) + 2 * k) (judgment_kwargs ev p)
                 = Completion (Some (expls ! k)) a
             \<and> remote (length (requests w1) + 2 * k + 1)
                 (extraction_kwargs ev (pairwise_function_call_prompt (expls ! k)))
                 = Completion c (Some fa)
             \<and> map_of fa (ev_argument_name ev) = Some l
             \<and> map_of (ev_assessment_to_score_mapping ev) l = Some (scores ! k)"
        by blast
      then show ?thesis unfolding idx Suc by simp
    qed
  qed
  show ?case
    apply (rule exI [where x = "s # scores"])
    apply (rule exI [where x = "e # expls"])
    using ih all len1 by (simp add: w1)
qed

lemma score_loop_total:
  assumes J: "\<forall>n p. \<exists>e a. remote n (judgment_kwargs ev p) = Completion (Some e) a"
    and X: "\<forall>n p. \<exists>c fa l s. remote n (extraction_kwargs ev p) = Completion c (Some fa)
               \<and> map_of fa (ev_argument_name ev) = Some l
               \<and> map_of (ev_assessment_to_score_mapping ev) l = Some s"
    and W: "\<forall>d \<in> set ds. \<exists>p. call_prompt_fn fn d = Inr p"
  shows "\<exists>sl' el' w'. score_loop remote ev fn ds sl el w = (Inr (sl', el'), w')"
  using W
proof (induction ds arbitrary: sl el w)
  case Nil
  then show ?case by simp
next
  case (Cons d ds)
  from Cons.prems obtain p where p: "call_prompt_fn fn d = Inr p" by auto
  from J obtain e a where
    j: "remote (length (requests w)) (judgment_kwargs ev p) = Completion (Some e) a" by blast
  from X obtain c fa l s where
    x: "remote (Suc (length (requests w)))
          (extraction_kwargs ev (pairwise_function_call_prompt e)) = Completion c (Some fa)"
    and l: "map_of fa (ev_argument_name ev) = Some l"
    and s: "map_of (ev_assessment_to_score_mapping ev) l = Some s" by blast
  have gs: "get_score remote ev p pairwise_function_call_prompt w =
      (Inr (s, e), w\<lparr>requests := requests w
         @ [judgment_kwargs ev p, extraction_kwargs ev (pairwise_function_call_prompt e)]\<rparr>)"
    using get_score_eval [where f = pairwise_function_call_prompt, OF j x l] s by simp
  from Cons.prems have "\<forall>d \<in> set ds. \<exists>p. call_prompt_fn fn d = Inr p" by simp
  from Cons.IH [OF this] show ?case using p gs by simp
qed

subsection \<open>Context selection\<close>

lemma zip3_length: "length (zip3 xs ys zs) = min (length xs) (min (length ys) (length zs))"
  by (simp add: zip3_def)

lemma zip4_length:
  "length (zip4 xs ys zs us) = min (length xs) (min (length ys) (min (length zs) (length us)))"
  by (simp add: zip4_def)

lemma zip5_length:
  "length (zip5 xs ys zs us vs) =
     min (length xs) (min (length ys) (min (length zs) (min (length us) (length vs))))"
  by (simp add: zip5_def)

lemma zip3_nth: "i < length (zip3 xs ys zs) \<Longrightarrow> zip3 xs ys zs ! i = [xs ! i, ys ! i, zs ! i]"
  by (simp add: zip3_def)

lemma zip4_nth:
  "i < length (zip4 xs ys zs us) \<Longrightarrow> zip4 xs ys zs us ! i = [xs ! i, ys ! i, zs ! i, us ! i]"
  by (simp add: zip4_def)

lemma zip5_nth:
  "i < length (zip5 xs ys zs us vs) \<Longrightarrow>
     zip5 xs ys zs us vs ! i = [xs ! i, ys ! i, zs ! i, us ! i, vs ! i]"
  by (simp add: zip5_def)

lemma select_both_sources:
  "select_context A B Q (Some sa) (Some sb) refs =
     Inr (PromptWithSources, zip5 (iter_items A) (iter_items B) (iter_items Q) sa sb)"
  by (simp add: select_context_def)

lemma select_source_a:
  "select_context A B Q (Some sa) None refs =
     Inr (PromptWithSources, zip4 (iter_items A) (iter_items B) (iter_items Q) sa)"
  by (simp add: select_context_def)

lemma select_source_b:
  "select_context A B Q None (Some sb) refs =
     Inr (PromptWithSources, zip4 (iter_items A) (iter_items B) (iter_items Q) sb)"
  by (simp add: select_context_def)

lemma select_reference:
  "select_context A B Q None None (Some rs) =
     Inr (PromptWithReference, zip4 (iter_items A) (iter_items B) (iter_items Q) rs)"
  by (simp add: select_context_def)

lemma select_plain:
  "select_context A B Q None None None =
     Inr (Prompt, zip3 (iter_items A) (iter_items B) (iter_items Q))"
  by (simp add: select_context_def)

lemma call_sources5:
  "i < length (zip5 xs ys zs us vs) \<Longrightarrow>
     call_prompt_fn PromptWithSources (zip5 xs ys zs us vs ! i) =
       Inr (pairwise_prompt_with_sources (xs ! i) (ys ! i) (zs ! i) (us ! i) (Some (vs ! i)))"
  by (simp only: zip5_nth call_prompt_fn.simps)

lemma call_sources4:
  "i < length (zip4 xs ys zs us) \<Longrightarrow>
     call_prompt_fn PromptWithSources (zip4 xs ys zs us ! i) =
       Inr (pairwise_prompt_with_sources (xs ! i) (ys ! i) (zs ! i) (us ! i) None)"
  by (simp only: zip4_nth call_prompt_fn.simps)

lemma call_reference4:
  "i < length (zip4 xs ys zs us) \<Longrightarrow>
     call_prompt_fn PromptWithReference (zip4 xs ys zs us ! i) =
       Inr (pairwise_prompt_with_reference (xs ! i) (ys ! i) (zs ! i) (us ! i))"
  by (simp only: zip4_nth call_prompt_fn.simps)

lemma call_plain3:
  "i < length (zip3 xs ys zs) \<Longrightarrow>
     call_prompt_fn Prompt (zip3 xs ys zs ! i) =
       Inr (pairwise_prompt (xs ! i) (ys ! i) (zs ! i))"
  by (simp only: zip3_nth call_prompt_fn.simps)

lemma select_context_ok:
  "\<exists>fn data. select_context A B Q sa sb refs = Inr (fn, data)
     \<and> length data = min_list (map length (zipped_sequences A B Q sa sb refs))
     \<and> (\<forall>i < length data. data ! i = map (\<lambda>s. s ! i) (zipped_sequences A B Q sa sb refs))
     \<and> (\<forall>i < length data. \<exists>p. call_prompt_fn fn (data ! i) = Inr p)"
proof (cases sa)
  case None
  note sa = None
  show ?thesis
  proof (cases sb)
    case None
    show ?thesis
    proof (cases refs)
      case None
      show ?thesis
        unfolding sa \<open>sb = None\<close> None select_plain
        using call_plain3 by (simp add: zipped_sequences_def zip3_length zip3_nth)
    next
      case (Some rs)
      show ?thesis
        unfolding sa \<open>sb = None\<close> Some select_reference
        using call_reference4 by (simp add: zipped_sequences_def zip4_length zip4_nth)
    qed
  next
    case (Some ys)
    show ?thesis
      unfolding sa Some select_source_b
      using call_sources4 by (simp add: zipped_sequences_def zip4_length zip4_nth)
  qed
next
  case (Some xs)
  note sa = Some
  show ?thesis
  proof (cases sb)
    case None
    show ?thesis
      unfolding sa None select_source_a
      using call_sources4 by (simp add: zipped_sequences_def zip4_length zip4_nth)
  next
    case (Some ys)
    show ?thesis
      unfolding sa Some select_both_sources
      using call_sources5 by (simp add: zipped_sequences_def zip5_length zip5_nth)
  qed
qed

lemma pairwise_success:
  assumes mt: "model_type \<in> {''openai'', ''azure_openai''}"
    and sel: "select_context A B Q sa sb refs = Inr (fn, data)"
    and loop: "score_loop remote (oai_evaluator model_type client oa) fn data [] []
                 (w\<lparr>progress_bars := progress_bars w @ [(''Calculating scores'', py_len Q)]\<rparr>)
               = (Inr (sl, el), w2)"
  shows "pairwise_comparison remote A B Q sa sb refs model_type client oa w =
           (Inr None, w2\<lparr>stdout := stdout w2 @ [Scores sl, Explanations el]\<rparr>)"
  using mt sel loop by (auto simp: pairwise_comparison_def tqdm_wrapper_def)

lemma pairwise_failure:
  assumes mt: "model_type \<in> {''openai'', ''azure_openai''}"
    and sel: "select_context A B Q sa sb refs = Inr (fn, data)"
    and loop: "score_loop remote (oai_evaluator model_type client oa) fn data [] []
                 (w\<lparr>progress_bars := progress_bars w @ [(''Calculating scores'', py_len Q)]\<rparr>)
               = (Inl e, w2)"
  shows "pairwise_comparison remote A B Q sa sb refs model_type client oa w = (Inl e, w2)"
  using mt sel loop by (auto simp: pairwise_comparison_def tqdm_wrapper_def)

lemma pairwise_Inr:
  assumes "pairwise_comparison remote A B Q sa sb refs model_type client oa w = (Inr r, w')"
  shows "r = None \<and> (\<exists>fn data sl el w2.
           select_context A B Q sa sb refs = Inr (fn, data)
         \<and> score_loop remote (oai_evaluator model_type client oa) fn data [] []
              (w\<lparr>progress_bars := progress_bars w @ [(''Calculating scores'', py_len Q)]\<rparr>)
            = (Inr (sl, el), w2)
         \<and> w' = w2\<lparr>stdout := stdout w2 @ [Scores sl, Explanations el]\<rparr>)"
  using assms
  by (auto simp: pairwise_comparison_def tqdm_wrapper_def
      split: if_splits sum.splits prod.splits)

lemma pairwise_run:
  assumes mt: "model_type \<in> {''openai'', ''azure_openai''}"
    and J: "\<forall>n p. \<exists>e a. remote n (judgment_kwargs (oai_evaluator model_type client oa) p)
               = Completion (Some e) a"
    and X: "\<forall>n p. \<exists>c fa l s.
               remote n (extraction_kwargs (oai_evaluator model_type client oa) p)
                 = Completion c (Some fa)
             \<and> map_of fa ''pairwise_comparison'' = Some l
             \<and> map_of pairwise_comparison_assessment_to_score l = Some s"
  shows "\<exists>fn data scores expls w'.
           select_context A B Q sa sb refs = Inr (fn, data)
         \<and> length data = min_list (map length (zipped_sequences A B Q sa sb refs))
         \<and> (\<forall>i < length data. data ! i = map (\<lambda>s. s ! i) (zipped_sequences A B Q sa sb refs))
         \<and> pairwise_comparison remote A B Q sa sb refs model_type client oa w = (Inr None, w')
         \<and> stdout w' = stdout w @ [Scores scores, Explanations expls]
         \<and> progress_bars w' = progress_bars w @ [(''Calculating scores'', py_len Q)]
         \<and> sentiment_model_loaded w' = sentiment_model_loaded w
         \<and> length (requests w') = length (requests w) + 2 * length data
         \<and> length scores = length data \<and> length expls = length data
         \<and> (\<forall>i < length data. \<exists>p a c fa l.
               call_prompt_fn fn (data ! i) = Inr p
             \<and> remote (length (requests w) + 2 * i)
                 (judgment_kwargs (oai_evaluator model_type client oa) p)
                 = Completion (Some (expls ! i)) a
             \<and> remote (length (requests w) + 2 * i + 1)
                 (extraction_kwargs (oai_evaluator model_type client oa)
                    (pairwise_function_call_prompt (expls ! i)))
                 = Completion c (Some fa)
             \<and> map_of fa ''pairwise_comparison'' = Some l
             \<and> map_of pairwise_comparison_assessment_to_score l = Some (scores ! i))"
proof -
  define ev where "ev = oai_evaluator model_type client oa"
  define w1 where
    "w1 = w\<lparr>progress_bars := progress_bars w @ [(''Calculating scores'', py_len Q)]\<rparr>"
  have arg: "ev_argument_name ev = ''pairwise_comparison''"
    and mp: "ev_assessment_to_score_mapping ev = pairwise_comparison_assessment_to_score"
    by (simp_all add: ev_def oai_evaluator_def)
  from select_context_ok [of A B Q sa sb refs] obtain fn data where
    sel: "select_context A B Q sa sb refs = Inr (fn, data)"
    and len: "length data = min_list (map length (zipped_sequences A B Q sa sb refs))"
    and nth: "\<forall>i < length data. data ! i = map (\<lambda>s. s ! i) (zipped_sequences A B Q sa sb refs)"
    and wf: "\<forall>i < length data. \<exists>p. call_prompt_fn fn (data ! i) = Inr p"
    by blast
  have W: "\<forall>d \<in> set data. \<exists>p. call_prompt_fn fn d = Inr p"
    using wf by (auto simp: in_set_conv_nth)
  have J': "\<forall>n p. \<exists>e a. remote n (judgment_kwargs ev p) = Completion (Some e) a"
    using J by (simp add: ev_def)
  have X': "\<forall>n p. \<exists>c fa l s. remote n (extraction_kwargs ev p) = Completion c (Some fa)
               \<and> map_of fa (ev_argument_name ev) = Some l
               \<and> map_of (ev_assessment_to_score_mapping ev) l = Some s"
    using X unfolding arg mp by (simp add: ev_def)
  from score_loop_total [OF J' X' W, of "[]" "[]" w1] obtain sl el w2 where
    loop: "score_loop remote ev fn data [] [] w1 = (Inr (sl, el), w2)" by blast
  from score_loop_Inr [OF loop] obtain scores expls where
    sl: "sl = scores" and el: "el = expls"
    and ls: "length scores = length data" and le: "length expls = length data"
    and so: "stdout w2 = stdout w1" and pb: "progress_bars w2 = progress_bars w1"
    and sm: "sentiment_model_loaded w2 = sentiment_model_loaded w1"
    and rq: "length (requests w2) = length (requests w1) + 2 * length data"
    and items: "\<forall>i < length data. \<exists>p a c fa l.
               call_prompt_fn fn (data ! i) = Inr p
             \<and> remote (length (requests w1) + 2 * i) (judgment_kwargs ev p)
                 = Completion (Some (expls ! i)) a
             \<and> remote (length (requests w1) + 2 * i + 1)
                 (extraction_kwargs ev (pairwise_function_call_prompt (expls ! i)))
                 = Completion c (Some fa)
             \<and> map_of fa (ev_argument_name ev) = Some l
             \<and> map_of (ev_assessment_to_score_mapping ev) l = Some (scores ! i)"
    by auto
  have run: "pairwise_comparison remote A B Q sa sb refs model_type client oa w =
           (Inr None, w2\<lparr>stdout := stdout w2 @ [Scores scores, Explanations expls]\<rparr>)"
    using pairwise_success [OF mt sel] loop unfolding ev_def w1_def sl el by simp
  have rw1: "requests w1 = requests w" by (simp add: w1_def)
  show ?thesis
    apply (rule exI [where x = fn])
    apply (rule exI [where x = data])
    apply (rule exI [where x = scores])
    apply (rule exI [where x = expls])
    apply (rule exI [where x = "w2\<lparr>stdout := stdout w2 @ [Scores scores, Explanations expls]\<rparr>"])
    using sel len nth run ls le so pb sm rq items
    unfolding arg mp rw1
    by (simp add: w1_def ev_def)
qed

subsection \<open>Runs of the orchestrating function\<close>

lemma min_list_all_equal:
  "xs \<noteq> [] \<Longrightarrow> \<forall>x \<in> set xs. x = (n::nat) \<Longrightarrow> min_list xs = n"
proof (induction xs)
  case Nil
  then show ?case by simp
next
  case (Cons a xs)
  then show ?case by (cases xs) auto
qed

lemma tie_score: "map_of pairwise_comparison_assessment_to_score ''Tie'' = Some (1 / 2)"
  by (simp add: pairwise_comparison_assessment_to_score_def)

lemma response_a_score: "map_of pairwise_comparison_assessment_to_score ''Response A'' = Some 0"
  by (simp add: pairwise_comparison_assessment_to_score_def)

lemma aligned_zipped:
  assumes "length (iter_items A) = N" "length (iter_items B) = N" "length (iter_items Q) = N"
    and "\<forall>xs. sa = Some xs \<longrightarrow> length xs = N" "\<forall>xs. sb = Some xs \<longrightarrow> length xs = N"
    and "\<forall>xs. refs = Some xs \<longrightarrow> length xs = N"
  shows "min_list (map length (zipped_sequences A B Q sa sb refs)) = N"
proof (rule min_list_all_equal)
  show "map length (zipped_sequences A B Q sa sb refs) \<noteq> []"
    by (simp add: zipped_sequences_def)
  show "\<forall>x \<in> set (map length (zipped_sequences A B Q sa sb refs)). x = N"
    using assms by (auto simp: zipped_sequences_def split: option.splits if_splits)
qed

lemma zipped_take3:
  "take 3 (map f (zipped_sequences A B Q sa sb refs)) =
     [f (iter_items A), f (iter_items B), f (iter_items Q)]"
  by (simp add: zipped_sequences_def)

lemma constant_judge_judgment:
  "constant_judge argument label explanation n
     (judgment_kwargs (oai_evaluator model_type client None) p) = Completion (Some explanation) None"
  by (simp add: constant_judge_def judgment_kwargs_def evaluator_call_kwargs_def
        oai_evaluator_def)

lemma constant_judge_extraction:
  "constant_judge argument label explanation n
     (extraction_kwargs (oai_evaluator model_type client None) p)
     = Completion None (Some [(argument, label)])"
  by (simp add: constant_judge_def extraction_kwargs_def evaluator_call_kwargs_def
        oai_evaluator_def)

lemma constant_judge_run:
  assumes mt: "model_type \<in> {''openai'', ''azure_openai''}"
    and lab: "map_of pairwise_comparison_assessment_to_score label = Some s"
  shows "\<exists>w'. pairwise_comparison (constant_judge ''pairwise_comparison'' label explanation)
                 A B Q sa sb refs model_type client None w = (Inr None, w')
          \<and> stdout w' = stdout w
               @ [Scores (replicate (min_list (map length (zipped_sequences A B Q sa sb refs))) s),
                  Explanations
                    (replicate (min_list (map length (zipped_sequences A B Q sa sb refs)))
                       explanation)]
          \<and> progress_bars w' = progress_bars w @ [(''Calculating scores'', py_len Q)]"
proof -
  let ?judge = "constant_judge ''pairwise_comparison'' label explanation"
  let ?ev = "oai_evaluator model_type client None"
  let ?n = "min_list (map length (zipped_sequences A B Q sa sb refs))"
  have J: "\<forall>n p. \<exists>e a. ?judge n (judgment_kwargs ?ev p) = Completion (Some e) a"
    by (simp add: constant_judge_judgment)
  have X: "\<forall>n p. \<exists>c fa l s. ?judge n (extraction_kwargs ?ev p) = Completion c (Some fa)
            \<and> map_of fa ''pairwise_comparison'' = Some l
            \<and> map_of pairwise_comparison_assessment_to_score l = Some s"
    using lab by (simp add: constant_judge_extraction)
  from pairwise_run [OF mt J X, of A B Q sa sb refs w]
  obtain fn data scores expls w' where
    len: "length data = ?n"
    and run: "pairwise_comparison ?judge A B Q sa sb refs model_type client None w
                = (Inr None, w')"
    and out: "stdout w' = stdout w @ [Scores scores, Explanations expls]"
    and pb: "progress_bars w' = progress_bars w @ [(''Calculating scores'', py_len Q)]"
    and ls: "length scores = length data" and le: "length expls = length data"
    and items: "\<forall>i < length data. \<exists>p a c fa l.
               call_prompt_fn fn (data ! i) = Inr p
             \<and> ?judge (length (requests w) + 2 * i) (judgment_kwargs ?ev p)
                 = Completion (Some (expls ! i)) a
             \<and> ?judge (length (requests w) + 2 * i + 1)
                 (extraction_kwargs ?ev (pairwise_function_call_prompt (expls ! i)))
                 = Completion c (Some fa)
             \<and> map_of fa ''pairwise_comparison'' = Some l
             \<and> map_of pairwise_comparison_assessment_to_score l = Some (scores ! i)"
    by blast
  have item: "expls ! i = explanation \<and> scores ! i = s" if "i < length data" for i
  proof -
    from items that obtain p a c fa l where
      j: "?judge (length (requests w) + 2 * i) (judgment_kwargs ?ev p)
                 = Completion (Some (expls ! i)) a"
      and x: "?judge (length (requests w) + 2 * i + 1)
                 (extraction_kwargs ?ev (pairwise_function_call_prompt (expls ! i)))
                 = Completion c (Some fa)"
      and l: "map_of fa ''pairwise_comparison'' = Some l"
      and sc: "map_of pairwise_comparison_assessment_to_score l = Some (scores ! i)"
      by blast
    from j have e: "expls ! i = explanation" unfolding constant_judge_judgment by simp
    from x have "fa = [(''pairwise_comparison'', label)]"
      unfolding constant_judge_extraction by simp
    with l have "l = label" by simp
    with sc lab e show ?thesis by simp
  qed
  have "scores = replicate ?n s" "expls = replicate ?n explanation"
    using ls le len item by (simp_all add: list_eq_iff_nth_eq)
  with run out pb show ?thesis by blast
qed

lemma pairwise_unrecognized:
  assumes mt: "model_type \<in> {''openai'', ''azure_openai''}"
    and sel: "select_context A B Q sa sb refs = Inr (fn, data)"
    and k: "k < length data"
    and prefix: "score_loop remote (oai_evaluator model_type client oa) fn (take k data) [] []
                   (w\<lparr>progress_bars := progress_bars w @ [(''Calculating scores'', py_len Q)]\<rparr>)
                 = (Inr (sl, el), w2)"
    and p: "call_prompt_fn fn (data ! k) = Inr p"
    and j: "remote (length (requests w2)) (judgment_kwargs (oai_evaluator model_type client oa) p)
              = Completion (Some e) a"
    and x: "remote (Suc (length (requests w2)))
              (extraction_kwargs (oai_evaluator model_type client oa)
                 (pairwise_function_call_prompt e))
              = Completion c (Some fa)"
    and l: "map_of fa ''pairwise_comparison'' = Some label"
    and bad: "label \<notin> {''Response A'', ''Tie'', ''Response B''}"
  shows "fst (pairwise_comparison remote A B Q sa sb refs model_type client oa w)
           = Inl UnrecognizedAssessment
       \<and> stdout (snd (pairwise_comparison remote A B Q sa sb refs model_type client oa w))
           = stdout w"
proof -
  let ?ev = "oai_evaluator model_type client oa"
  let ?w1 = "w\<lparr>progress_bars := progress_bars w @ [(''Calculating scores'', py_len Q)]\<rparr>"
  let ?w3 = "w2\<lparr>requests := requests w2
               @ [judgment_kwargs ?ev p, extraction_kwargs ?ev (pairwise_function_call_prompt e)]\<rparr>"
  have arg: "ev_argument_name ?ev = ''pairwise_comparison''"
    and mp: "ev_assessment_to_score_mapping ?ev = pairwise_comparison_assessment_to_score"
    by (simp_all add: oai_evaluator_def)
  have none: "map_of pairwise_comparison_assessment_to_score label = None"
    using bad by (simp add: pairwise_comparison_assessment_to_score_def)
  have l': "map_of fa (ev_argument_name ?ev) = Some label" using l arg by simp
  have gs: "get_score remote ?ev p pairwise_function_call_prompt w2
              = (Inl UnrecognizedAssessment, ?w3)"
    using get_score_eval [where f = pairwise_function_call_prompt, OF j x l'] none mp by simp
  have split: "data = take k data @ (data ! k) # drop (Suc k) data"
    using k by (simp add: id_take_nth_drop)
  have "score_loop remote ?ev fn data [] [] ?w1
          = score_loop remote ?ev fn (take k data @ (data ! k) # drop (Suc k) data) [] [] ?w1"
    using split by simp
  also have "\<dots> = score_loop remote ?ev fn ((data ! k) # drop (Suc k) data) sl el w2"
    using prefix by (simp add: score_loop_append)
  also have "\<dots> = (Inl UnrecognizedAssessment, ?w3)"
    using p gs by simp
  finally have loop: "score_loop remote ?ev fn data [] [] ?w1 = (Inl UnrecognizedAssessment, ?w3)" .
  have run: "pairwise_comparison remote A B Q sa sb refs model_type client oa w
               = (Inl UnrecognizedAssessment, ?w3)"
    by (rule pairwise_failure [OF mt sel loop])
  from score_loop_Inr [OF prefix] have "stdout w2 = stdout ?w1" by blast
  then have "stdout ?w3 = stdout w" by simp
  with run show ?thesis by simp
qed

subsection \<open>Requests of the sentiment loop\<close>

lemma merge_kwargs_Inr:
  "merge_kwargs fixed d = Inr kw \<Longrightarrow> kw = fixed @ map (\<lambda>(k, v). (k, StrArg v)) d"
  by (simp add: merge_kwargs_def split: if_splits)

lemma merge_kwargs_disjoint:
  "\<forall>k \<in> set (map fst d). k \<notin> set (map fst fixed) \<Longrightarrow>
     merge_kwargs fixed d = Inr (fixed @ map (\<lambda>(k, v). (k, StrArg v)) d)"
  unfolding merge_kwargs_def by auto

lemma sentiment_call_kwargs_None:
  "sentiment_call_kwargs None g =
     Inr [(''model'', StrArg ''gpt-3.5-turbo''),
          (''messages'', Messages [(''user'', sentiment_prompt g)]),
          (''functions'', Functions sentiment_functions),
          (''function_call'', FunctionCall ''save_sentiment_assessment'')]"
  by (simp add: sentiment_call_kwargs_def)

lemma sentiment_call_kwargs_Some:
  "sentiment_call_kwargs (Some d) g = Inr kw \<Longrightarrow>
     kw = [(''messages'', Messages [(''user'', sentiment_prompt g)]),
           (''functions'', Functions sentiment_functions),
           (''function_call'', FunctionCall ''save_sentiment_assessment'')]
          @ map (\<lambda>(k, v). (k, StrArg v)) d"
  unfolding sentiment_call_kwargs_def Let_def option.case by (rule merge_kwargs_Inr)

lemma sentiment_call_kwargs_disjoint:
  assumes "\<forall>k \<in> set (map fst d). k \<notin> {''messages'', ''functions'', ''function_call''}"
  shows "sentiment_call_kwargs (Some d) g =
       Inr ([(''messages'', Messages [(''user'', sentiment_prompt g)]),
             (''functions'', Functions sentiment_functions),
             (''function_call'', FunctionCall ''save_sentiment_assessment'')]
            @ map (\<lambda>(k, v). (k, StrArg v)) d)"
proof -
  have "\<forall>k \<in> set (map fst d).
          k \<notin> set (map fst [(''messages'', Messages [(''user'', sentiment_prompt g)]),
             (''functions'', Functions sentiment_functions),
             (''function_call'', FunctionCall ''save_sentiment_assessment'')])"
    using assms by simp
  from merge_kwargs_disjoint [OF this] show ?thesis
    unfolding sentiment_call_kwargs_def Let_def option.case .
qed

lemma sentiment_openai_requests:
  "\<forall>kw \<in> set (drop (length (requests w))
               (requests (snd (sentiment_openai remote outs oa w)))).
      \<exists>g \<in> set outs. sentiment_call_kwargs oa g = Inr kw"
proof -
  from sentiment_loop_requests [of remote oa outs "[]" w] obtain rs where
    "requests (snd (sentiment_openai_loop remote oa outs [] w)) = requests w @ rs"
    "\<forall>kw \<in> set rs. \<exists>g \<in> set outs. sentiment_call_kwargs oa g = Inr kw" by blast
  then show ?thesis by (simp add: sentiment_openai_def)
qed

lemma sentiment_openai_first:
  assumes "outs \<noteq> []" "sentiment_call_kwargs oa (hd outs) = Inr kw"
  shows "length (requests w) < length (requests (snd (sentiment_openai remote outs oa w)))
       \<and> requests (snd (sentiment_openai remote outs oa w)) ! length (requests w) = kw"
proof -
  from assms(1) obtain g gs where outs: "outs = g # gs" by (cases outs) auto
  with assms(2) have kw: "sentiment_call_kwargs oa g = Inr kw" by simp
  from sentiment_first_request [OF kw, of remote gs "[]" w] obtain rs where
    rs: "requests (snd (sentiment_openai_loop remote oa (g # gs) [] w)) = requests w @ kw # rs"
    by blast
  show ?thesis unfolding sentiment_openai_def outs rs by (simp add: nth_append)
qed

subsection \<open>Replies of the scripted judge\<close>

lemma scripted_judge_judgment:
  "scripted_judge argument calls_per_item labels n
     (judgment_kwargs (oai_evaluator model_type client None) p)
     = Completion (Some ''Considered.'') None"
  by (simp add: scripted_judge_def judgment_kwargs_def evaluator_call_kwargs_def
        oai_evaluator_def)

lemma scripted_judge_extraction:
  "scripted_judge argument calls_per_item labels n
     (extraction_kwargs (oai_evaluator model_type client None) p)
     = (if n div calls_per_item < length labels
        then Completion None (Some [(argument, labels ! (n div calls_per_item))])
        else Raised TransportError)"
  by (simp add: scripted_judge_def extraction_kwargs_def evaluator_call_kwargs_def
        oai_evaluator_def)

lemma scripted_judge_sentiment:
  "scripted_judge argument calls_per_item labels n
     [(''model'', StrArg ''gpt-3.5-turbo''),
      (''messages'', Messages [(''user'', sentiment_prompt g)]),
      (''functions'', Functions sentiment_functions),
      (''function_call'', FunctionCall ''save_sentiment_assessment'')]
     = (if n div calls_per_item < length labels
        then Completion None (Some [(argument, labels ! (n div calls_per_item))])
        else Raised TransportError)"
  by (simp add: scripted_judge_def)

lemma oai_evaluator_fields:
  "ev_argument_name (oai_evaluator model_type client oa) = ''pairwise_comparison''"
  "ev_assessment_to_score_mapping (oai_evaluator model_type client oa)
     = pairwise_comparison_assessment_to_score"
  by (simp_all add: oai_evaluator_def)

section \<open>The claims\<close>

text \<open>
  C1. The pairwise mapping from assessment to score gives \<^verbatim>\<open>Response A\<close> the score 0,
  \<^verbatim>\<open>Tie\<close> the score 0.5 and \<^verbatim>\<open>Response B\<close> the score 1; these three labels are
  exactly the labels that have a score, each once.
\<close>

theorem pairwise_mapping_total:
  "map_of pairwise_comparison_assessment_to_score ''Response A'' = Some 0
   \<and> map_of pairwise_comparison_assessment_to_score ''Tie'' = Some (1 / 2)
   \<and> map_of pairwise_comparison_assessment_to_score ''Response B'' = Some 1
   \<and> dom (map_of pairwise_comparison_assessment_to_score)
       = {''Response A'', ''Tie'', ''Response B''}
   \<and> distinct (map fst pairwise_comparison_assessment_to_score)"
  by (auto simp: pairwise_comparison_assessment_to_score_def dom_map_of_conv_image_fst)

text \<open>
  C3. The context variant is chosen once for the batch, and a source sequence wins over
  the reference outputs: with a source sequence (\<^verbatim>\<open>sources_a\<close>, \<^verbatim>\<open>sources_b\<close> or both)
  every data instance is rendered by the source template, whatever \<^verbatim>\<open>reference_outputs\<close>
  is; without one and with reference outputs every instance is rendered by the reference
  template; otherwise every instance is rendered by the plain template. Instance \<open>i\<close> is
  built from the items at position \<open>i\<close>; with one source sequence it is the single
  source, with both the second source is the one of \<^verbatim>\<open>sources_b\<close>.
\<close>

theorem context_variant_precedence:
  "(\<forall>sa sb. sources_a = Some sa \<and> sources_b = Some sb \<longrightarrow>
      (\<exists>data. select_context A B Q sources_a sources_b reference_outputs
                 = Inr (PromptWithSources, data)
         \<and> (\<forall>i < length data. call_prompt_fn PromptWithSources (data ! i) =
               Inr (pairwise_prompt_with_sources (iter_items A ! i) (iter_items B ! i)
                      (iter_items Q ! i) (sa ! i) (Some (sb ! i))))))
   \<and> (\<forall>sa. sources_a = Some sa \<and> sources_b = None \<longrightarrow>
      (\<exists>data. select_context A B Q sources_a sources_b reference_outputs
                 = Inr (PromptWithSources, data)
         \<and> (\<forall>i < length data. call_prompt_fn PromptWithSources (data ! i) =
               Inr (pairwise_prompt_with_sources (iter_items A ! i) (iter_items B ! i)
                      (iter_items Q ! i) (sa ! i) None))))
   \<and> (\<forall>sb. sources_a = None \<and> sources_b = Some sb \<longrightarrow>
      (\<exists>data. select_context A B Q sources_a sources_b reference_outputs
                 = Inr (PromptWithSources, data)
         \<and> (\<forall>i < length data. call_prompt_fn PromptWithSources (data ! i) =
               Inr (pairwise_prompt_with_sources (iter_items A ! i) (iter_items B ! i)
                      (iter_items Q ! i) (sb ! i) None))))
   \<and> (\<forall>rs. sources_a = None \<and> sources_b = None \<and> reference_outputs = Some rs \<longrightarrow>
      (\<exists>data. select_context A B Q sources_a sources_b reference_outputs
                 = Inr (PromptWithReference, data)
         \<and> (\<forall>i < length data. call_prompt_fn PromptWithReference (data ! i) =
               Inr (pairwise_prompt_with_reference (iter_items A ! i) (iter_items B ! i)
                      (iter_items Q ! i) (rs ! i)))))
   \<and> (sources_a = None \<and> sources_b = None \<and> reference_outputs = None \<longrightarrow>
      (\<exists>data. select_context A B Q sources_a sources_b reference_outputs = Inr (Prompt, data)
         \<and> (\<forall>i < length data. call_prompt_fn Prompt (data ! i) =
               Inr (pairwise_prompt (iter_items A ! i) (iter_items B ! i)
                      (iter_items Q ! i)))))"
proof (intro conjI allI impI)
  fix sa sb assume "sources_a = Some sa \<and> sources_b = Some sb"
  then show "\<exists>data. select_context A B Q sources_a sources_b reference_outputs
                 = Inr (PromptWithSources, data)
         \<and> (\<forall>i < length data. call_prompt_fn PromptWithSources (data ! i) =
               Inr (pairwise_prompt_with_sources (iter_items A ! i) (iter_items B ! i)
                      (iter_items Q ! i) (sa ! i) (Some (sb ! i))))"
    using select_both_sources call_sources5 by blast
next
  fix sa assume "sources_a = Some sa \<and> sources_b = None"
  then show "\<exists>data. select_context A B Q sources_a sources_b reference_outputs
                 = Inr (PromptWithSources, data)
         \<and> (\<forall>i < length data. call_prompt_fn PromptWithSources (data ! i) =
               Inr (pairwise_prompt_with_sources (iter_items A ! i) (iter_items B ! i)
                      (iter_items Q ! i) (sa ! i) None))"
    using select_source_a call_sources4 by blast
next
  fix sb assume "sources_a = None \<and> sources_b = Some sb"
  then show "\<exists>data. select_context A B Q sources_a sources_b reference_outputs
                 = Inr (PromptWithSources, data)
         \<and> (\<forall>i < length data. call_prompt_fn PromptWithSources (data ! i) =
               Inr (pairwise_prompt_with_sources (iter_items A ! i) (iter_items B ! i)
                      (iter_items Q ! i) (sb ! i) None))"
    using select_source_b call_sources4 by blast
next
  fix rs assume "sources_a = None \<and> sources_b = None \<and> reference_outputs = Some rs"
  then show "\<exists>data. select_context A B Q sources_a sources_b reference_outputs
                 = Inr (PromptWithReference, data)
         \<and> (\<forall>i < length data. call_prompt_fn PromptWithReference (data ! i) =
               Inr (pairwise_prompt_with_reference (iter_items A ! i) (iter_items B ! i)
                      (iter_items Q ! i) (rs ! i)))"
    using select_reference call_reference4 by blast
next
  assume "sources_a = None \<and> sources_b = None \<and> reference_outputs = None"
  then show "\<exists>data. select_context A B Q sources_a sources_b reference_outputs = Inr (Prompt, data)
         \<and> (\<forall>i < length data. call_prompt_fn Prompt (data ! i) =
               Inr (pairwise_prompt (iter_items A ! i) (iter_items B ! i)
                      (iter_items Q ! i)))"
    using select_plain call_plain3 by blast
qed

theorem context_variant_precedence_witness:
  "select_context (StrList [''a'']) (StrList [''b'']) (StrList [''q'']) (Some [''s''])
       None (Some [''r''])
     = Inr (PromptWithSources, [[''a'', ''b'', ''q'', ''s'']])
   \<and> call_prompt_fn PromptWithSources [''a'', ''b'', ''q'', ''s'']
       = Inr (pairwise_prompt_with_sources ''a'' ''b'' ''q'' ''s'' None)"
proof -
  have sel: "select_context (StrList [''a'']) (StrList [''b'']) (StrList [''q''])
      (Some [''s'']) None (Some [''r'']) = Inr (PromptWithSources, [[''a'', ''b'', ''q'', ''s'']])"
    by (simp add: select_context_def zip4_def)
  have hyp: "Some [''s''] = Some [''s''] \<and> (None :: string list option) = None"
    by (rule conjI) (rule refl)+
  note inst = context_variant_precedence [of "Some [''s'']" None "StrList [''a'']"
      "StrList [''b'']" "StrList [''q'']" "Some [''r'']",
      THEN conjunct2, THEN conjunct1, THEN spec, THEN mp, OF hyp]
  then obtain data where d: "select_context (StrList [''a'']) (StrList [''b'']) (StrList [''q''])
      (Some [''s'']) None (Some [''r'']) = Inr (PromptWithSources, data)"
    and r: "\<forall>i < length data. call_prompt_fn PromptWithSources (data ! i) =
               Inr (pairwise_prompt_with_sources (iter_items (StrList [''a'']) ! i)
                      (iter_items (StrList [''b'']) ! i)
                      (iter_items (StrList [''q'']) ! i) ([''s''] ! i) None)"
    by (elim exE conjE)
  from d have data: "data = [[''a'', ''b'', ''q'', ''s'']]"
    unfolding sel by (simp only: sum.inject prod.inject)
  have len: "0 < length data" unfolding data by simp
  from r [THEN spec, THEN mp, OF len]
  have "call_prompt_fn PromptWithSources [''a'', ''b'', ''q'', ''s'']
       = Inr (pairwise_prompt_with_sources ''a'' ''b'' ''q'' ''s'' None)"
    unfolding data by (simp only: nth_Cons_0 iter_items.simps)
  with sel show ?thesis by (rule conjI)
qed

text \<open>
  C6. With two sources the source template embeds \<^verbatim>\<open>source_1\<close>, one line break and
  \<^verbatim>\<open>source_2\<close> after the tag \<^verbatim>\<open>[Source]: \<close>, also when the two sources are the same text
  (nothing is deduplicated); without \<^verbatim>\<open>source_2\<close> it embeds \<^verbatim>\<open>source_1\<close> alone. The rest
  of the prompt does not depend on the sources.
\<close>

theorem sources_embedded:
  "pairwise_prompt_with_sources a b q s1 (Some s2) =
     join_nl (sources_lines_before q) @ nl @ ''        [Source]: '' @ s1 @ nl @ s2 @ nl
       @ join_nl (sources_lines_after a b)
   \<and> pairwise_prompt_with_sources a b q s1 None =
     join_nl (sources_lines_before q) @ nl @ ''        [Source]: '' @ s1 @ nl
       @ join_nl (sources_lines_after a b)
   \<and> sublist (''[Source]: '' @ s1 @ nl @ s2 @ nl) (pairwise_prompt_with_sources a b q s1 (Some s2))
   \<and> sublist (''[Source]: '' @ s1 @ nl @ s1 @ nl) (pairwise_prompt_with_sources a b q s1 (Some s1))
   \<and> sublist (''[Source]: '' @ s1 @ nl) (pairwise_prompt_with_sources a b q s1 None)
   \<and> nl = [CHR 0x0A]"
proof -
  have shape2: "pairwise_prompt_with_sources a b q s1 (Some t) =
      (join_nl (sources_lines_before q) @ nl @ ''        '') @ (''[Source]: '' @ s1 @ nl @ t @ nl)
       @ join_nl (sources_lines_after a b)" for t
    by (simp add: with_sources_shape)
  have shape1: "pairwise_prompt_with_sources a b q s1 None =
      (join_nl (sources_lines_before q) @ nl @ ''        '') @ (''[Source]: '' @ s1 @ nl)
       @ join_nl (sources_lines_after a b)"
    by (simp add: with_sources_shape)
  have sub2: "sublist (''[Source]: '' @ s1 @ nl @ t @ nl)
       (pairwise_prompt_with_sources a b q s1 (Some t))" for t
    unfolding sublist_def using shape2 by blast
  have sub1: "sublist (''[Source]: '' @ s1 @ nl) (pairwise_prompt_with_sources a b q s1 None)"
    unfolding sublist_def using shape1 by blast
  show ?thesis
    using sub2 [of s2] sub2 [of s1] sub1
    by (simp add: with_sources_shape nl_def)
qed

text \<open>
  C7. With a model type outside the supported ones, \<^verbatim>\<open>pairwise_comparison\<close> and
  \<^verbatim>\<open>sentiment\<close> raise the assertion error at once: the world is the one they were called
  in, so no request was sent, nothing was printed and no model was loaded.
\<close>

theorem unsupported_model_type_fails_fast:
  "(model_type \<notin> {''openai'', ''azure_openai''} \<longrightarrow>
      pairwise_comparison remote generated_outputs_a generated_outputs_b prompts sources_a
        sources_b reference_outputs model_type openai_client openai_args w =
      (Inl (AssertionError
         ''Unsupported model type. The supported ones are [\"openai\", \"azure_openai\"]''), w))
   \<and> (model_type \<notin> {''local'', ''openai''} \<longrightarrow>
      sentiment model remote generated_outputs eval_prompts_arg model_type openai_args w =
      (Inl (AssertionError
         ''Unsupported model type. The supported ones are [\"local\", \"openai\"]''), w))"
  by (simp add: pairwise_comparison_def sentiment_def)

theorem unsupported_model_type_witness:
  "''local'' \<notin> {''openai'', ''azure_openai''}
   \<and> pairwise_comparison (constant_judge ''pairwise_comparison'' ''Tie'' ''Equal.'')
         (StrList [''a'']) (StrList [''b'']) (StrList [''q'']) None None None ''local'' None
         None initial_world
       = (Inl (AssertionError
            ''Unsupported model type. The supported ones are [\"openai\", \"azure_openai\"]''),
          initial_world)
   \<and> ''azure_openai'' \<notin> {''local'', ''openai''}
   \<and> sentiment flat_classifier (constant_judge ''sentiment'' ''Positive'' []) [''good''] None
         ''azure_openai'' None initial_world
       = (Inl (AssertionError
            ''Unsupported model type. The supported ones are [\"local\", \"openai\"]''),
          initial_world)"
proof -
  have h1: "''local'' \<notin> {''openai'', ''azure_openai''}" by simp
  have h2: "''azure_openai'' \<notin> {''local'', ''openai''}" by simp
  note c1 = unsupported_model_type_fails_fast [THEN conjunct1, THEN mp, OF h1]
  note c2 = unsupported_model_type_fails_fast [THEN conjunct2, THEN mp, OF h2]
  show ?thesis
    by (intro conjI) (rule h1, rule c1, rule h2, rule c2)
qed

text \<open>
  C8. The local sentiment path returns, for each output, the neutral probability halved
  plus the positive probability of the softmax of the classifier's three logits. The three
  probabilities are positive and sum to one, and every score lies between 0 and 1. Floats
  are read as real numbers.
\<close>

theorem local_sentiment_score_range:
  "fst (sentiment_local model generated_outputs w) =
     Inr (map (\<lambda>r. sentiment_column (softmax_row r)) (model generated_outputs))
   \<and> (\<exists>ev w'. sentiment model remote generated_outputs prompts ''local'' openai_args w
                  = (Inr ev, w')
         \<and> eval_metric_values ev =
             map (\<lambda>r. sentiment_column (softmax_row r)) (model generated_outputs))
   \<and> sentiment_column (softmax_row (l0, l1, l2)) =
       (exp l1 / (exp l0 + exp l1 + exp l2)) / 2 + exp l2 / (exp l0 + exp l1 + exp l2)
   \<and> (case softmax_row (l0, l1, l2) of
         (p0, p1, p2) \<Rightarrow> 0 < p0 \<and> 0 < p1 \<and> 0 < p2 \<and> p0 + p1 + p2 = 1)
   \<and> (\<forall>s \<in> set (map (\<lambda>r. sentiment_column (softmax_row r)) (model generated_outputs)).
         0 \<le> s \<and> s \<le> 1)"
proof (intro conjI)
  show "case softmax_row (l0, l1, l2) of
         (p0, p1, p2) \<Rightarrow> 0 < p0 \<and> 0 < p1 \<and> 0 < p2 \<and> p0 + p1 + p2 = 1"
    by (rule softmax_row_probability)
  show "fst (sentiment_local model generated_outputs w) =
     Inr (map (\<lambda>r. sentiment_column (softmax_row r)) (model generated_outputs))"
    by (simp add: sentiment_local_def Let_def)
  show "\<exists>ev w'. sentiment model remote generated_outputs prompts ''local'' openai_args w
                  = (Inr ev, w')
         \<and> eval_metric_values ev =
             map (\<lambda>r. sentiment_column (softmax_row r)) (model generated_outputs)"
    by (simp add: sentiment_def sentiment_local_def Let_def)
  show "sentiment_column (softmax_row (l0, l1, l2)) =
       (exp l1 / (exp l0 + exp l1 + exp l2)) / 2 + exp l2 / (exp l0 + exp l1 + exp l2)"
    by simp
  show "\<forall>s \<in> set (map (\<lambda>r. sentiment_column (softmax_row r)) (model generated_outputs)).
         0 \<le> s \<and> s \<le> 1"
    using softmax_row_bounds by auto
qed

theorem local_sentiment_score_range_witness:
  "map (\<lambda>r. sentiment_column (softmax_row r)) (flat_classifier [''good'', ''bad''])
     = [1 / 2, 1 / 2]
   \<and> (1 / 2 :: real) \<in> set [1 / 2, 1 / 2]
   \<and> (0 :: real) \<le> 1 / 2 \<and> (1 / 2 :: real) \<le> 1"
proof -
  have ev: "map (\<lambda>r. sentiment_column (softmax_row r)) (flat_classifier [''good'', ''bad''])
     = [1 / 2, 1 / 2]"
    by (simp add: flat_classifier_def)
  from local_sentiment_score_range [of flat_classifier "[''good'', ''bad'']" initial_world
      "constant_judge [] [] []" None None 0 0 0]
  have "\<forall>s \<in> set (map (\<lambda>r. sentiment_column (softmax_row r))
                 (flat_classifier [''good'', ''bad''])). 0 \<le> s \<and> s \<le> 1"
    by (elim conjE)
  then have all: "\<forall>s \<in> set [1 / 2, 1 / 2 :: real]. 0 \<le> s \<and> s \<le> 1"
    unfolding ev .
  have mem: "(1 / 2 :: real) \<in> set [1 / 2, 1 / 2]" by simp
  from all mem have "(0 :: real) \<le> 1 / 2 \<and> (1 / 2 :: real) \<le> 1" by (rule bspec)
  with ev mem show ?thesis by (intro conjI) (erule conjunct1 | erule conjunct2 | assumption)+
qed

text \<open>
  C2, as stated, fails: at the example input, with a judge that answers \<^verbatim>\<open>Response A\<close>,
  the call succeeds and what it gives its caller is \<^verbatim>\<open>None\<close>, not the one-element result
  list.
\<close>

theorem returns_result_set_counterexample:
  "fst (pairwise_comparison
          (constant_judge ''pairwise_comparison'' ''Response A'' ''Response A answers the query.'')
          (StrList [''The sky is blue.'']) (StrList [''I hate you.''])
          (StrList [''Describe something.'']) None None None ''openai'' None None initial_world)
     = Inr None
   \<and> fst (pairwise_comparison
          (constant_judge ''pairwise_comparison'' ''Response A'' ''Response A answers the query.'')
          (StrList [''The sky is blue.'']) (StrList [''I hate you.''])
          (StrList [''Describe something.'']) None None None ''openai'' None None initial_world)
     \<noteq> Inr (Some [(0, ''Response A answers the query.'')])"
proof -
  have mt: "''openai'' \<in> {''openai'', ''azure_openai''}" by simp
  from constant_judge_run [OF mt response_a_score, of "''Response A answers the query.''"
      "StrList [''The sky is blue.'']" "StrList [''I hate you.'']"
      "StrList [''Describe something.'']" None None None None initial_world]
  have "fst (pairwise_comparison
          (constant_judge ''pairwise_comparison'' ''Response A'' ''Response A answers the query.'')
          (StrList [''The sky is blue.'']) (StrList [''I hate you.''])
          (StrList [''Describe something.'']) None None None ''openai'' None None initial_world)
     = Inr None"
    by auto
  then show ?thesis by simp
qed

text \<open>
  C2, amended. Every call of \<^verbatim>\<open>pairwise_comparison\<close> that does not raise returns
  \<^verbatim>\<open>None\<close> and prints the complete score list and then the complete explanation list,
  each with one entry per data instance and in the order of the instances: entry \<open>i\<close> of
  the explanations is the free text of the judge's reply to the judgment prompt of instance
  \<open>i\<close>, and entry \<open>i\<close> of the scores is the score of the label the judge then gave.
  At the example input, with a judge that answers \<^verbatim>\<open>Response A\<close>, the printed lists are
  \<^verbatim>\<open>[0.0]\<close> and the judge's free text.
\<close>

theorem pairwise_prints_results:
  assumes run: "pairwise_comparison remote generated_outputs_a generated_outputs_b prompts
                  sources_a sources_b reference_outputs model_type openai_client openai_args w
                = (Inr r, w')"
  shows "r = None
       \<and> (\<exists>fn data scores expls.
             select_context generated_outputs_a generated_outputs_b prompts sources_a sources_b
               reference_outputs = Inr (fn, data)
           \<and> stdout w' = stdout w @ [Scores scores, Explanations expls]
           \<and> length scores = length data \<and> length expls = length data
           \<and> (\<forall>i < length data. \<exists>p a c fa l.
                 call_prompt_fn fn (data ! i) = Inr p
               \<and> remote (length (requests w) + 2 * i)
                   (judgment_kwargs (oai_evaluator model_type openai_client openai_args) p)
                   = Completion (Some (expls ! i)) a
               \<and> remote (length (requests w) + 2 * i + 1)
                   (extraction_kwargs (oai_evaluator model_type openai_client openai_args)
                      (pairwise_function_call_prompt (expls ! i)))
                   = Completion c (Some fa)
               \<and> map_of fa ''pairwise_comparison'' = Some l
               \<and> map_of pairwise_comparison_assessment_to_score l = Some (scores ! i)))"
proof -
  let ?ev = "oai_evaluator model_type openai_client openai_args"
  let ?w1 = "w\<lparr>progress_bars := progress_bars w @ [(''Calculating scores'', py_len prompts)]\<rparr>"
  have arg: "ev_argument_name ?ev = ''pairwise_comparison''"
    and mp: "ev_assessment_to_score_mapping ?ev = pairwise_comparison_assessment_to_score"
    by (simp_all add: oai_evaluator_def)
  from pairwise_Inr [OF run] obtain fn data sl el w2 where
    r: "r = None"
    and sel: "select_context generated_outputs_a generated_outputs_b prompts sources_a sources_b
               reference_outputs = Inr (fn, data)"
    and loop: "score_loop remote ?ev fn data [] [] ?w1 = (Inr (sl, el), w2)"
    and w': "w' = w2\<lparr>stdout := stdout w2 @ [Scores sl, Explanations el]\<rparr>"
    by blast
  from score_loop_Inr [OF loop] obtain scores expls where
    sl: "sl = scores" and el: "el = expls"
    and ls: "length scores = length data" and le: "length expls = length data"
    and so: "stdout w2 = stdout ?w1"
    and items: "\<forall>i < length data. \<exists>p a c fa l.
               call_prompt_fn fn (data ! i) = Inr p
             \<and> remote (length (requests ?w1) + 2 * i) (judgment_kwargs ?ev p)
                 = Completion (Some (expls ! i)) a
             \<and> remote (length (requests ?w1) + 2 * i + 1)
                 (extraction_kwargs ?ev (pairwise_function_call_prompt (expls ! i)))
                 = Completion c (Some fa)
             \<and> map_of fa (ev_argument_name ?ev) = Some l
             \<and> map_of (ev_assessment_to_score_mapping ?ev) l = Some (scores ! i)"
    by auto
  have out: "stdout w' = stdout w @ [Scores scores, Explanations expls]"
    using so by (simp add: w' sl el)
  have items': "\<forall>i < length data. \<exists>p a c fa l.
                 call_prompt_fn fn (data ! i) = Inr p
               \<and> remote (length (requests w) + 2 * i) (judgment_kwargs ?ev p)
                   = Completion (Some (expls ! i)) a
               \<and> remote (length (requests w) + 2 * i + 1)
                   (extraction_kwargs ?ev (pairwise_function_call_prompt (expls ! i)))
                   = Completion c (Some fa)
               \<and> map_of fa ''pairwise_comparison'' = Some l
               \<and> map_of pairwise_comparison_assessment_to_score l = Some (scores ! i)"
    using items unfolding arg mp by simp
  show ?thesis
    using r sel out ls le items' by blast
qed

theorem pairwise_prints_results_witness:
  "\<exists>w'. pairwise_comparison
          (constant_judge ''pairwise_comparison'' ''Response A'' ''Response A answers the query.'')
          (StrList [''The sky is blue.'']) (StrList [''I hate you.''])
          (StrList [''Describe something.'']) None None None ''openai'' None None initial_world
        = (Inr None, w')
      \<and> stdout w' = [Scores [0], Explanations [''Response A answers the query.'']]"
proof -
  let ?judge =
    "constant_judge ''pairwise_comparison'' ''Response A'' ''Response A answers the query.''"
  let ?ev = "oai_evaluator ''openai'' None None"
  have mt: "''openai'' \<in> {''openai'', ''azure_openai''}" by simp
  from constant_judge_run [OF mt response_a_score, of "''Response A answers the query.''"
      "StrList [''The sky is blue.'']" "StrList [''I hate you.'']"
      "StrList [''Describe something.'']" None None None None initial_world]
  obtain w' where run: "pairwise_comparison ?judge
          (StrList [''The sky is blue.'']) (StrList [''I hate you.''])
          (StrList [''Describe something.'']) None None None ''openai'' None None initial_world
        = (Inr None, w')"
    by blast
  have sel: "select_context (StrList [''The sky is blue.'']) (StrList [''I hate you.''])
          (StrList [''Describe something.'']) None None None
        = Inr (Prompt, [[''The sky is blue.'', ''I hate you.'', ''Describe something.'']])"
    by (simp add: select_context_def zip3_def)
  from pairwise_prints_results [OF run] obtain fn data scores expls where
    sel': "select_context (StrList [''The sky is blue.'']) (StrList [''I hate you.''])
          (StrList [''Describe something.'']) None None None = Inr (fn, data)"
    and out: "stdout w' = stdout initial_world @ [Scores scores, Explanations expls]"
    and ls: "length scores = length data" and le: "length expls = length data"
    and items: "\<forall>i < length data. \<exists>p a c fa l.
                 call_prompt_fn fn (data ! i) = Inr p
               \<and> ?judge (length (requests initial_world) + 2 * i) (judgment_kwargs ?ev p)
                   = Completion (Some (expls ! i)) a
               \<and> ?judge (length (requests initial_world) + 2 * i + 1)
                   (extraction_kwargs ?ev (pairwise_function_call_prompt (expls ! i)))
                   = Completion c (Some fa)
               \<and> map_of fa ''pairwise_comparison'' = Some l
               \<and> map_of pairwise_comparison_assessment_to_score l = Some (scores ! i)"
    by blast
  from sel sel' have len: "length data = 1" by auto
  from items len obtain p a c fa l where
    j: "?judge (length (requests initial_world) + 2 * 0) (judgment_kwargs ?ev p)
          = Completion (Some (expls ! 0)) a"
    and x: "?judge (length (requests initial_world) + 2 * 0 + 1)
              (extraction_kwargs ?ev (pairwise_function_call_prompt (expls ! 0)))
            = Completion c (Some fa)"
    and l: "map_of fa ''pairwise_comparison'' = Some l"
    and s: "map_of pairwise_comparison_assessment_to_score l = Some (scores ! 0)"
    by (metis zero_less_one)
  from j have e0: "expls ! 0 = ''Response A answers the query.''"
    unfolding constant_judge_judgment by simp
  from x have "fa = [(''pairwise_comparison'', ''Response A'')]"
    unfolding constant_judge_extraction by simp
  with l have "l = ''Response A''" by simp
  with s response_a_score have s0: "scores ! 0 = 0" by simp
  have "expls = [''Response A answers the query.'']" "scores = [0]"
    using le ls len e0 s0 by (simp_all add: list_eq_iff_nth_eq)
  with out have "stdout w' = [Scores [0], Explanations [''Response A answers the query.'']]"
    by (simp add: initial_world_def)
  with run show ?thesis by blast
qed

text \<open>
  C5. For a batch of \<open>N\<close> aligned items (every supplied sequence has \<open>N\<close> items), with
  a judge that gives a free text for every judgment prompt and the label \<^verbatim>\<open>Tie\<close> for
  every extraction prompt, \<^verbatim>\<open>pairwise_comparison\<close> completes and produces \<open>N\<close> scores,
  all 0.5, and \<open>N\<close> explanations; instance \<open>i\<close> is built from the items at position
  \<open>i\<close> of the inputs, and explanation \<open>i\<close> is the judge's free text for it.
\<close>

theorem tie_batch:
  assumes mt: "model_type \<in> {''openai'', ''azure_openai''}"
    and lenA: "length (iter_items generated_outputs_a) = N"
    and lenB: "length (iter_items generated_outputs_b) = N"
    and lenQ: "length (iter_items prompts) = N"
    and lensa: "\<forall>xs. sources_a = Some xs \<longrightarrow> length xs = N"
    and lensb: "\<forall>xs. sources_b = Some xs \<longrightarrow> length xs = N"
    and lenrefs: "\<forall>xs. reference_outputs = Some xs \<longrightarrow> length xs = N"
    and J: "\<forall>n p. \<exists>e a.
              remote n (judgment_kwargs (oai_evaluator model_type openai_client openai_args) p)
                = Completion (Some e) a"
    and X: "\<forall>n p. \<exists>c fa.
              remote n (extraction_kwargs (oai_evaluator model_type openai_client openai_args) p)
                = Completion c (Some fa)
            \<and> map_of fa ''pairwise_comparison'' = Some ''Tie''"
  shows "\<exists>fn data expls w'.
           select_context generated_outputs_a generated_outputs_b prompts sources_a sources_b
             reference_outputs = Inr (fn, data)
         \<and> length data = N
         \<and> pairwise_comparison remote generated_outputs_a generated_outputs_b prompts sources_a
             sources_b reference_outputs model_type openai_client openai_args w = (Inr None, w')
         \<and> stdout w' = stdout w @ [Scores (replicate N (1 / 2)), Explanations expls]
         \<and> length expls = N
         \<and> (\<forall>i < N.
               take 3 (data ! i) = [iter_items generated_outputs_a ! i,
                                    iter_items generated_outputs_b ! i, iter_items prompts ! i]
             \<and> (\<exists>p a. call_prompt_fn fn (data ! i) = Inr p
                  \<and> remote (length (requests w) + 2 * i)
                      (judgment_kwargs (oai_evaluator model_type openai_client openai_args) p)
                      = Completion (Some (expls ! i)) a))"
proof -
  let ?ev = "oai_evaluator model_type openai_client openai_args"
  let ?zs = "zipped_sequences generated_outputs_a generated_outputs_b prompts sources_a
               sources_b reference_outputs"
  have X': "\<forall>n p. \<exists>c fa l s. remote n (extraction_kwargs ?ev p) = Completion c (Some fa)
             \<and> map_of fa ''pairwise_comparison'' = Some l
             \<and> map_of pairwise_comparison_assessment_to_score l = Some s"
    using X tie_score by blast
  from pairwise_run [OF mt J X', of generated_outputs_a generated_outputs_b prompts sources_a
      sources_b reference_outputs w]
  obtain fn data scores expls w' where
    sel: "select_context generated_outputs_a generated_outputs_b prompts sources_a sources_b
             reference_outputs = Inr (fn, data)"
    and len: "length data = min_list (map length ?zs)"
    and nth: "\<forall>i < length data. data ! i = map (\<lambda>s. s ! i) ?zs"
    and run: "pairwise_comparison remote generated_outputs_a generated_outputs_b prompts
             sources_a sources_b reference_outputs model_type openai_client openai_args w
             = (Inr None, w')"
    and out: "stdout w' = stdout w @ [Scores scores, Explanations expls]"
    and ls: "length scores = length data" and le: "length expls = length data"
    and items: "\<forall>i < length data. \<exists>p a c fa l.
               call_prompt_fn fn (data ! i) = Inr p
             \<and> remote (length (requests w) + 2 * i) (judgment_kwargs ?ev p)
                 = Completion (Some (expls ! i)) a
             \<and> remote (length (requests w) + 2 * i + 1)
                 (extraction_kwargs ?ev (pairwise_function_call_prompt (expls ! i)))
                 = Completion c (Some fa)
             \<and> map_of fa ''pairwise_comparison'' = Some l
             \<and> map_of pairwise_comparison_assessment_to_score l = Some (scores ! i)"
    by blast
  have N: "length data = N"
    unfolding len by (rule aligned_zipped [OF lenA lenB lenQ lensa lensb lenrefs])
  have half: "scores ! i = 1 / 2" if i: "i < N" for i
  proof -
    from items i N obtain p a c fa l where
      x: "remote (length (requests w) + 2 * i + 1)
            (extraction_kwargs ?ev (pairwise_function_call_prompt (expls ! i)))
            = Completion c (Some fa)"
      and l: "map_of fa ''pairwise_comparison'' = Some l"
      and s: "map_of pairwise_comparison_assessment_to_score l = Some (scores ! i)"
      by blast
    from X obtain c' fa' where
      x': "remote (length (requests w) + 2 * i + 1)
            (extraction_kwargs ?ev (pairwise_function_call_prompt (expls ! i)))
            = Completion c' (Some fa')"
      and l': "map_of fa' ''pairwise_comparison'' = Some ''Tie''"
      by blast
    from x x' have "fa = fa'" by simp
    with l l' have "l = ''Tie''" by simp
    with s tie_score show ?thesis by simp
  qed
  have scores: "scores = replicate N (1 / 2)"
    using ls N half by (simp add: list_eq_iff_nth_eq)
  have per: "\<forall>i < N.
               take 3 (data ! i) = [iter_items generated_outputs_a ! i,
                                    iter_items generated_outputs_b ! i, iter_items prompts ! i]
             \<and> (\<exists>p a. call_prompt_fn fn (data ! i) = Inr p
                  \<and> remote (length (requests w) + 2 * i) (judgment_kwargs ?ev p)
                      = Completion (Some (expls ! i)) a)"
  proof (intro allI impI conjI)
    fix i assume i: "i < N"
    then have "data ! i = map (\<lambda>s. s ! i) ?zs" using nth N by simp
    then show "take 3 (data ! i) = [iter_items generated_outputs_a ! i,
                                    iter_items generated_outputs_b ! i, iter_items prompts ! i]"
      by (simp only: zipped_take3)
    from items i N show "\<exists>p a. call_prompt_fn fn (data ! i) = Inr p
                  \<and> remote (length (requests w) + 2 * i) (judgment_kwargs ?ev p)
                      = Completion (Some (expls ! i)) a"
      by blast
  qed
  show ?thesis
    apply (rule exI [where x = fn])
    apply (rule exI [where x = data])
    apply (rule exI [where x = expls])
    apply (rule exI [where x = w'])
    using sel N run out le per unfolding scores by simp
qed

theorem tie_batch_witness:
  "\<exists>w'. pairwise_comparison (constant_judge ''pairwise_comparison'' ''Tie'' ''Equal.'')
           (StrList [''a1'', ''a2'']) (StrList [''b1'', ''b2'']) (StrList [''q1'', ''q2''])
           None None None ''openai'' None None initial_world = (Inr None, w')
       \<and> stdout w' = [Scores [1 / 2, 1 / 2], Explanations [''Equal.'', ''Equal.'']]"
proof -
  let ?judge = "constant_judge ''pairwise_comparison'' ''Tie'' ''Equal.''"
  let ?ev = "oai_evaluator ''openai'' None None"
  have mt: "''openai'' \<in> {''openai'', ''azure_openai''}" by simp
  have lenA: "length (iter_items (StrList [''a1'', ''a2''])) = 2" by simp
  have lenB: "length (iter_items (StrList [''b1'', ''b2''])) = 2" by simp
  have lenQ: "length (iter_items (StrList [''q1'', ''q2''])) = 2" by simp
  have none: "\<forall>xs. (None :: string list option) = Some xs \<longrightarrow> length xs = 2" by simp
  have J: "\<forall>n p. \<exists>e a. ?judge n (judgment_kwargs ?ev p) = Completion (Some e) a"
    by (simp add: constant_judge_judgment)
  have X: "\<forall>n p. \<exists>c fa. ?judge n (extraction_kwargs ?ev p) = Completion c (Some fa)
            \<and> map_of fa ''pairwise_comparison'' = Some ''Tie''"
    by (simp add: constant_judge_extraction)
  from tie_batch [OF mt lenA lenB lenQ none none none J X, of initial_world]
  obtain fn data expls w' where
    run: "pairwise_comparison ?judge (StrList [''a1'', ''a2'']) (StrList [''b1'', ''b2''])
            (StrList [''q1'', ''q2'']) None None None ''openai'' None None initial_world
          = (Inr None, w')"
    and out: "stdout w' = stdout initial_world @ [Scores (replicate 2 (1 / 2)), Explanations expls]"
    and le: "length expls = 2"
    and per: "\<forall>i < 2. take 3 (data ! i) = [iter_items (StrList [''a1'', ''a2'']) ! i,
                 iter_items (StrList [''b1'', ''b2'']) ! i, iter_items (StrList [''q1'', ''q2'']) ! i]
             \<and> (\<exists>p a. call_prompt_fn fn (data ! i) = Inr p
                  \<and> ?judge (length (requests initial_world) + 2 * i) (judgment_kwargs ?ev p)
                      = Completion (Some (expls ! i)) a)"
    by blast
  have e: "expls ! i = ''Equal.''" if "i < 2" for i
  proof -
    from per that obtain p a where
      "?judge (length (requests initial_world) + 2 * i) (judgment_kwargs ?ev p)
         = Completion (Some (expls ! i)) a" by blast
    then show ?thesis unfolding constant_judge_judgment by simp
  qed
  have expls: "expls = [''Equal.'', ''Equal.'']"
    using le e by (simp add: list_eq_iff_nth_eq less_Suc_eq numeral_2_eq_2)
  have "stdout w' = [Scores [1 / 2, 1 / 2], Explanations [''Equal.'', ''Equal.'']]"
    using out unfolding expls by (simp add: initial_world_def numeral_2_eq_2)
  with run show ?thesis by blast
qed

text \<open>
  C10, as stated, fails: with two items in each output, prompt and source sequence and a
  single reference output, the loop processes two items, while the shortest supplied
  sequence has one. The reference outputs are not zipped when a source sequence is given.
\<close>

theorem zip_truncation_counterexample:
  "stdout (snd (pairwise_comparison (constant_judge ''pairwise_comparison'' ''Tie'' ''Equal.'')
       (StrList [''a1'', ''a2'']) (StrList [''b1'', ''b2'']) (StrList [''q1'', ''q2''])
       (Some [''s1'', ''s2'']) None (Some [''r1'']) ''openai'' None None initial_world))
     = [Scores [1 / 2, 1 / 2], Explanations [''Equal.'', ''Equal.'']]
   \<and> length [1 / 2, 1 / 2 :: real]
       \<noteq> min_list (map length [[''a1'', ''a2''], [''b1'', ''b2''], [''q1'', ''q2''],
                                [''s1'', ''s2''], [''r1'']])"
proof -
  have mt: "''openai'' \<in> {''openai'', ''azure_openai''}" by simp
  have n: "min_list (map length (zipped_sequences (StrList [''a1'', ''a2''])
             (StrList [''b1'', ''b2'']) (StrList [''q1'', ''q2'']) (Some [''s1'', ''s2'']) None
             (Some [''r1'']))) = Suc (Suc 0)"
    by (simp add: zipped_sequences_def)
  from constant_judge_run [OF mt tie_score, of "''Equal.''" "StrList [''a1'', ''a2'']"
      "StrList [''b1'', ''b2'']" "StrList [''q1'', ''q2'']" "Some [''s1'', ''s2'']" None
      "Some [''r1'']" None initial_world]
  have "stdout (snd (pairwise_comparison (constant_judge ''pairwise_comparison'' ''Tie'' ''Equal.'')
       (StrList [''a1'', ''a2'']) (StrList [''b1'', ''b2'']) (StrList [''q1'', ''q2''])
       (Some [''s1'', ''s2'']) None (Some [''r1'']) ''openai'' None None initial_world))
     = [Scores [1 / 2, 1 / 2], Explanations [''Equal.'', ''Equal.'']]"
    unfolding n by (auto simp: initial_world_def)
  then show ?thesis by simp
qed

text \<open>
  C10, amended. Sequences of unequal lengths raise no error: with a judge that answers
  every request with a recognised label, \<^verbatim>\<open>pairwise_comparison\<close> completes, and the loop
  processes exactly as many items as the shortest of the sequences that are zipped (both
  output sequences, the prompts, and the sequences of the selected context variant: reference
  outputs given together with a source sequence are not among them). It sends two requests
  per processed item, and the total of the progress bar is \<^verbatim>\<open>len(prompts)\<close>.
\<close>

theorem zip_truncation:
  assumes mt: "model_type \<in> {''openai'', ''azure_openai''}"
    and J: "\<forall>n p. \<exists>e a.
              remote n (judgment_kwargs (oai_evaluator model_type openai_client openai_args) p)
                = Completion (Some e) a"
    and X: "\<forall>n p. \<exists>c fa l s.
              remote n (extraction_kwargs (oai_evaluator model_type openai_client openai_args) p)
                = Completion c (Some fa)
            \<and> map_of fa ''pairwise_comparison'' = Some l
            \<and> map_of pairwise_comparison_assessment_to_score l = Some s"
  shows "\<exists>scores expls w'.
           pairwise_comparison remote generated_outputs_a generated_outputs_b prompts sources_a
             sources_b reference_outputs model_type openai_client openai_args w = (Inr None, w')
         \<and> stdout w' = stdout w @ [Scores scores, Explanations expls]
         \<and> length scores =
             min_list (map length (zipped_sequences generated_outputs_a generated_outputs_b
                                     prompts sources_a sources_b reference_outputs))
         \<and> length expls =
             min_list (map length (zipped_sequences generated_outputs_a generated_outputs_b
                                     prompts sources_a sources_b reference_outputs))
         \<and> length (requests w') = length (requests w)
             + 2 * min_list (map length (zipped_sequences generated_outputs_a
                               generated_outputs_b prompts sources_a sources_b reference_outputs))
         \<and> progress_bars w' = progress_bars w @ [(''Calculating scores'', py_len prompts)]"
proof -
  from pairwise_run [OF mt J X, of generated_outputs_a generated_outputs_b prompts sources_a
      sources_b reference_outputs w]
  obtain data :: "string list list" and scores expls w' where
    "length data = min_list (map length (zipped_sequences generated_outputs_a
        generated_outputs_b prompts sources_a sources_b reference_outputs))"
    "pairwise_comparison remote generated_outputs_a generated_outputs_b prompts sources_a
       sources_b reference_outputs model_type openai_client openai_args w = (Inr None, w')"
    "stdout w' = stdout w @ [Scores scores, Explanations expls]"
    "progress_bars w' = progress_bars w @ [(''Calculating scores'', py_len prompts)]"
    "length (requests w') = length (requests w) + 2 * length data"
    "length scores = length data" "length expls = length data"
    by blast
  then show ?thesis by auto
qed

theorem zip_truncation_witness:
  "\<exists>scores expls w'.
     pairwise_comparison (constant_judge ''pairwise_comparison'' ''Response B'' ''B is kinder.'')
       (StrList [''a1'', ''a2'', ''a3'']) (StrList [''b1'', ''b2'']) (StrList [''q1'', ''q2'', ''q3''])
       None None (Some [''r1'', ''r2'', ''r3'', ''r4'']) ''azure_openai'' None None initial_world
       = (Inr None, w')
     \<and> stdout w' = [Scores scores, Explanations expls]
     \<and> length scores = 2 \<and> length expls = 2 \<and> length (requests w') = 4
     \<and> progress_bars w' = [(''Calculating scores'', 3)]"
proof -
  let ?judge = "constant_judge ''pairwise_comparison'' ''Response B'' ''B is kinder.''"
  let ?ev = "oai_evaluator ''azure_openai'' None None"
  have mt: "''azure_openai'' \<in> {''openai'', ''azure_openai''}" by simp
  have J: "\<forall>n p. \<exists>e a. ?judge n (judgment_kwargs ?ev p) = Completion (Some e) a"
    by (simp add: constant_judge_judgment)
  have X: "\<forall>n p. \<exists>c fa l s. ?judge n (extraction_kwargs ?ev p) = Completion c (Some fa)
            \<and> map_of fa ''pairwise_comparison'' = Some l
            \<and> map_of pairwise_comparison_assessment_to_score l = Some s"
    by (simp add: constant_judge_extraction pairwise_comparison_assessment_to_score_def)
  have n: "min_list (map length (zipped_sequences (StrList [''a1'', ''a2'', ''a3''])
             (StrList [''b1'', ''b2'']) (StrList [''q1'', ''q2'', ''q3'']) None None
             (Some [''r1'', ''r2'', ''r3'', ''r4'']))) = 2"
    by (simp add: zipped_sequences_def)
  from zip_truncation [OF mt J X, of "StrList [''a1'', ''a2'', ''a3'']" "StrList [''b1'', ''b2'']"
      "StrList [''q1'', ''q2'', ''q3'']" None None "Some [''r1'', ''r2'', ''r3'', ''r4'']"
      initial_world]
  show ?thesis unfolding n by (simp add: initial_world_def numeral_3_eq_3)
qed

text \<open>
  C9. Every request that \<^verbatim>\<open>_sentiment_openai\<close> sends without \<^verbatim>\<open>openai_args\<close> carries the
  model \<^verbatim>\<open>gpt-3.5-turbo\<close> before the messages, the function schema and the forced function
  call. Every request it sends with \<^verbatim>\<open>openai_args\<close> carries the messages, the schema, the
  forced call and then the entries of \<^verbatim>\<open>openai_args\<close>, unchanged and in their order, and
  no model argument of its own. A request for the first output is sent whenever there is an
  output (with \<^verbatim>\<open>openai_args\<close>: whenever none of its keys repeats a keyword that the call
  writes out, which Python rejects before the call). \<^verbatim>\<open>pairwise_comparison\<close> hands its
  \<^verbatim>\<open>openai_args\<close> unchanged to the evaluator it constructs.
\<close>

theorem openai_args_forwarded:
  "(\<forall>kw \<in> set (drop (length (requests w))
                (requests (snd (sentiment_openai remote generated_outputs None w)))).
      \<exists>g \<in> set generated_outputs.
        kw = [(''model'', StrArg ''gpt-3.5-turbo''),
              (''messages'', Messages [(''user'', sentiment_prompt g)]),
              (''functions'', Functions sentiment_functions),
              (''function_call'', FunctionCall ''save_sentiment_assessment'')])
   \<and> (\<forall>kw \<in> set (drop (length (requests w))
                (requests (snd (sentiment_openai remote generated_outputs (Some d) w)))).
      \<exists>g \<in> set generated_outputs.
        kw = [(''messages'', Messages [(''user'', sentiment_prompt g)]),
              (''functions'', Functions sentiment_functions),
              (''function_call'', FunctionCall ''save_sentiment_assessment'')]
             @ map (\<lambda>(k, v). (k, StrArg v)) d)
   \<and> (generated_outputs \<noteq> [] \<longrightarrow>
        length (requests w)
          < length (requests (snd (sentiment_openai remote generated_outputs None w)))
      \<and> requests (snd (sentiment_openai remote generated_outputs None w)) ! length (requests w)
          = [(''model'', StrArg ''gpt-3.5-turbo''),
             (''messages'', Messages [(''user'', sentiment_prompt (hd generated_outputs))]),
             (''functions'', Functions sentiment_functions),
             (''function_call'', FunctionCall ''save_sentiment_assessment'')])
   \<and> (generated_outputs \<noteq> []
        \<and> (\<forall>k \<in> set (map fst d). k \<notin> {''messages'', ''functions'', ''function_call''}) \<longrightarrow>
        length (requests w)
          < length (requests (snd (sentiment_openai remote generated_outputs (Some d) w)))
      \<and> requests (snd (sentiment_openai remote generated_outputs (Some d) w))
            ! length (requests w)
          = [(''messages'', Messages [(''user'', sentiment_prompt (hd generated_outputs))]),
             (''functions'', Functions sentiment_functions),
             (''function_call'', FunctionCall ''save_sentiment_assessment'')]
            @ map (\<lambda>(k, v). (k, StrArg v)) d)
   \<and> ev_openai_args (oai_evaluator model_type openai_client openai_args) = openai_args"
proof -
  have a: "\<forall>kw \<in> set (drop (length (requests w))
                (requests (snd (sentiment_openai remote generated_outputs None w)))).
      \<exists>g \<in> set generated_outputs.
        kw = [(''model'', StrArg ''gpt-3.5-turbo''),
              (''messages'', Messages [(''user'', sentiment_prompt g)]),
              (''functions'', Functions sentiment_functions),
              (''function_call'', FunctionCall ''save_sentiment_assessment'')]"
  proof
    fix kw
    assume "kw \<in> set (drop (length (requests w))
                (requests (snd (sentiment_openai remote generated_outputs None w))))"
    with sentiment_openai_requests [of w remote generated_outputs None]
    have "\<exists>g. g \<in> set generated_outputs \<and> sentiment_call_kwargs None g = Inr kw"
      by meson
    then obtain g where g: "g \<in> set generated_outputs" "sentiment_call_kwargs None g = Inr kw"
      by (elim exE conjE)
    from g(2) have "kw = [(''model'', StrArg ''gpt-3.5-turbo''),
              (''messages'', Messages [(''user'', sentiment_prompt g)]),
              (''functions'', Functions sentiment_functions),
              (''function_call'', FunctionCall ''save_sentiment_assessment'')]"
      unfolding sentiment_call_kwargs_None by (simp only: sum.inject)
    from this g(1) show "\<exists>g \<in> set generated_outputs.
        kw = [(''model'', StrArg ''gpt-3.5-turbo''),
              (''messages'', Messages [(''user'', sentiment_prompt g)]),
              (''functions'', Functions sentiment_functions),
              (''function_call'', FunctionCall ''save_sentiment_assessment'')]"
      by (rule bexI [where x = g])
  qed
  have b: "\<forall>kw \<in> set (drop (length (requests w))
                (requests (snd (sentiment_openai remote generated_outputs (Some d) w)))).
      \<exists>g \<in> set generated_outputs.
        kw = [(''messages'', Messages [(''user'', sentiment_prompt g)]),
              (''functions'', Functions sentiment_functions),
              (''function_call'', FunctionCall ''save_sentiment_assessment'')]
             @ map (\<lambda>(k, v). (k, StrArg v)) d"
  proof
    fix kw
    assume "kw \<in> set (drop (length (requests w))
                (requests (snd (sentiment_openai remote generated_outputs (Some d) w))))"
    with sentiment_openai_requests [of w remote generated_outputs "Some d"]
    have "\<exists>g. g \<in> set generated_outputs \<and> sentiment_call_kwargs (Some d) g = Inr kw"
      by meson
    then obtain g where g: "g \<in> set generated_outputs" "sentiment_call_kwargs (Some d) g = Inr kw"
      by (elim exE conjE)
    from sentiment_call_kwargs_Some [OF g(2)] g(1)
    show "\<exists>g \<in> set generated_outputs.
        kw = [(''messages'', Messages [(''user'', sentiment_prompt g)]),
              (''functions'', Functions sentiment_functions),
              (''function_call'', FunctionCall ''save_sentiment_assessment'')]
             @ map (\<lambda>(k, v). (k, StrArg v)) d"
      by (rule bexI [where x = g])
  qed
  have c: "generated_outputs \<noteq> [] \<longrightarrow>
        length (requests w)
          < length (requests (snd (sentiment_openai remote generated_outputs None w)))
      \<and> requests (snd (sentiment_openai remote generated_outputs None w)) ! length (requests w)
          = [(''model'', StrArg ''gpt-3.5-turbo''),
             (''messages'', Messages [(''user'', sentiment_prompt (hd generated_outputs))]),
             (''functions'', Functions sentiment_functions),
             (''function_call'', FunctionCall ''save_sentiment_assessment'')]"
  proof
    assume ne: "generated_outputs \<noteq> []"
    show "length (requests w)
          < length (requests (snd (sentiment_openai remote generated_outputs None w)))
      \<and> requests (snd (sentiment_openai remote generated_outputs None w)) ! length (requests w)
          = [(''model'', StrArg ''gpt-3.5-turbo''),
             (''messages'', Messages [(''user'', sentiment_prompt (hd generated_outputs))]),
             (''functions'', Functions sentiment_functions),
             (''function_call'', FunctionCall ''save_sentiment_assessment'')]"
      by (rule sentiment_openai_first [OF ne sentiment_call_kwargs_None])
  qed
  have e: "generated_outputs \<noteq> []
        \<and> (\<forall>k \<in> set (map fst d). k \<notin> {''messages'', ''functions'', ''function_call''}) \<longrightarrow>
        length (requests w)
          < length (requests (snd (sentiment_openai remote generated_outputs (Some d) w)))
      \<and> requests (snd (sentiment_openai remote generated_outputs (Some d) w))
            ! length (requests w)
          = [(''messages'', Messages [(''user'', sentiment_prompt (hd generated_outputs))]),
             (''functions'', Functions sentiment_functions),
             (''function_call'', FunctionCall ''save_sentiment_assessment'')]
            @ map (\<lambda>(k, v). (k, StrArg v)) d"
  proof
    assume h: "generated_outputs \<noteq> []
        \<and> (\<forall>k \<in> set (map fst d). k \<notin> {''messages'', ''functions'', ''function_call''})"
    from h have ne: "generated_outputs \<noteq> []" by (rule conjunct1)
    from h have dj: "\<forall>k \<in> set (map fst d). k \<notin> {''messages'', ''functions'', ''function_call''}"
      by (rule conjunct2)
    show "length (requests w)
          < length (requests (snd (sentiment_openai remote generated_outputs (Some d) w)))
      \<and> requests (snd (sentiment_openai remote generated_outputs (Some d) w))
            ! length (requests w)
          = [(''messages'', Messages [(''user'', sentiment_prompt (hd generated_outputs))]),
             (''functions'', Functions sentiment_functions),
             (''function_call'', FunctionCall ''save_sentiment_assessment'')]
            @ map (\<lambda>(k, v). (k, StrArg v)) d"
      by (rule sentiment_openai_first [OF ne sentiment_call_kwargs_disjoint [OF dj]])
  qed
  have f: "ev_openai_args (oai_evaluator model_type openai_client openai_args) = openai_args"
    by (simp add: oai_evaluator_def)
  show ?thesis by (rule conjI [OF a conjI [OF b conjI [OF c conjI [OF e f]]]])
qed

theorem openai_args_forwarded_witness:
  "[''good''] \<noteq> ([] :: string list)
   \<and> requests (snd (sentiment_openai (scripted_judge ''sentiment'' 1 [''Positive''])
                       [''good''] None initial_world)) ! 0
       = [(''model'', StrArg ''gpt-3.5-turbo''),
          (''messages'', Messages [(''user'', sentiment_prompt ''good'')]),
          (''functions'', Functions sentiment_functions),
          (''function_call'', FunctionCall ''save_sentiment_assessment'')]
   \<and> requests (snd (sentiment_openai (scripted_judge ''sentiment'' 1 [''Positive''])
                       [''good''] (Some [(''model'', ''gpt-4''), (''temperature'', ''0'')])
                       initial_world)) ! 0
       = [(''messages'', Messages [(''user'', sentiment_prompt ''good'')]),
          (''functions'', Functions sentiment_functions),
          (''function_call'', FunctionCall ''save_sentiment_assessment''),
          (''model'', StrArg ''gpt-4''), (''temperature'', StrArg ''0'')]"
proof -
  let ?judge = "scripted_judge ''sentiment'' 1 [''Positive'']"
  let ?d = "[(''model'', ''gpt-4''), (''temperature'', ''0'')]"
  note inst = openai_args_forwarded [where w = initial_world and remote = ?judge
      and generated_outputs = "[''good'']" and d = ?d]
  have ne: "[''good''] \<noteq> ([] :: string list)" by simp
  have dj: "[''good''] \<noteq> ([] :: string list)
      \<and> (\<forall>k \<in> set (map fst ?d). k \<notin> {''messages'', ''functions'', ''function_call''})"
    by simp
  have len: "length (requests initial_world) = 0" by (simp add: initial_world_def)
  note c3 = inst [THEN conjunct2, THEN conjunct2, THEN conjunct1, THEN mp, OF ne, THEN conjunct2]
  note c4 = inst [THEN conjunct2, THEN conjunct2, THEN conjunct2, THEN conjunct1, THEN mp, OF dj,
      THEN conjunct2]
  from c3 have r3: "requests (snd (sentiment_openai ?judge [''good''] None initial_world)) ! 0
       = [(''model'', StrArg ''gpt-3.5-turbo''),
          (''messages'', Messages [(''user'', sentiment_prompt ''good'')]),
          (''functions'', Functions sentiment_functions),
          (''function_call'', FunctionCall ''save_sentiment_assessment'')]"
    unfolding len by (simp only: list.sel)
  from c4 have r4: "requests (snd (sentiment_openai ?judge [''good''] (Some ?d) initial_world)) ! 0
       = [(''messages'', Messages [(''user'', sentiment_prompt ''good'')]),
          (''functions'', Functions sentiment_functions),
          (''function_call'', FunctionCall ''save_sentiment_assessment''),
          (''model'', StrArg ''gpt-4''), (''temperature'', StrArg ''0'')]"
    unfolding len by (simp only: list.sel list.map append.simps prod.case)
  show ?thesis by (rule conjI [OF ne conjI [OF r3 r4]])
qed

text \<open>
  C4. When the judge's label for item \<open>k\<close> is not one of the recognised labels, the items
  before it having been scored, the batch fails and nothing is returned, the scores of the
  earlier items included. In \<^verbatim>\<open>_sentiment_openai\<close> the failure is the assertion error of
  \<^verbatim>\<open>_sentiment_assessment_to_score\<close>, which has no default score, and \<^verbatim>\<open>sentiment\<close>
  fails with it. In \<^verbatim>\<open>pairwise_comparison\<close> the failure is \<open>UnrecognizedAssessment\<close>
  of the evaluator, which nothing catches, and nothing is printed.
\<close>

theorem unrecognized_assessment_aborts:
  "(k < length generated_outputs
      \<and> sentiment_openai remote (take k generated_outputs) openai_args w = (Inr scores, w')
      \<and> sentiment_call_kwargs openai_args (generated_outputs ! k) = Inr kw
      \<and> remote (length (requests w')) kw = Completion content (Some function_args)
      \<and> map_of function_args ''sentiment''
          \<notin> {Some ''Positive'', Some ''Neutral'', Some ''Negative''}
    \<longrightarrow> sentiment_openai remote generated_outputs openai_args w =
          (Inl (AssertionError ''OpenAI returned an unrecognized sentiment assessment :(''),
           w'\<lparr>requests := requests w' @ [kw]\<rparr>)
      \<and> fst (sentiment model remote generated_outputs prompts ''openai'' openai_args w) =
          Inl (AssertionError ''OpenAI returned an unrecognized sentiment assessment :(''))
   \<and> (model_type \<in> {''openai'', ''azure_openai''}
      \<and> select_context generated_outputs_a generated_outputs_b user_queries sources_a sources_b
          reference_outputs = Inr (fn, data)
      \<and> j < length data
      \<and> score_loop judge (oai_evaluator model_type openai_client judge_args) fn (take j data)
          [] []
          (v\<lparr>progress_bars := progress_bars v
                @ [(''Calculating scores'', py_len user_queries)]\<rparr>)
          = (Inr (score_list, explanation_list), v')
      \<and> call_prompt_fn fn (data ! j) = Inr prompt
      \<and> judge (length (requests v'))
          (judgment_kwargs (oai_evaluator model_type openai_client judge_args) prompt)
          = Completion (Some explanation) arguments
      \<and> judge (Suc (length (requests v')))
          (extraction_kwargs (oai_evaluator model_type openai_client judge_args)
             (pairwise_function_call_prompt explanation))
          = Completion content' (Some function_args')
      \<and> map_of function_args' ''pairwise_comparison'' = Some label
      \<and> label \<notin> {''Response A'', ''Tie'', ''Response B''}
    \<longrightarrow> fst (pairwise_comparison judge generated_outputs_a generated_outputs_b user_queries
               sources_a sources_b reference_outputs model_type openai_client judge_args v)
          = Inl UnrecognizedAssessment
      \<and> stdout (snd (pairwise_comparison judge generated_outputs_a generated_outputs_b
               user_queries sources_a sources_b reference_outputs model_type openai_client
               judge_args v))
          = stdout v)"
proof (rule conjI; rule impI)
  assume h: "k < length generated_outputs
      \<and> sentiment_openai remote (take k generated_outputs) openai_args w = (Inr scores, w')
      \<and> sentiment_call_kwargs openai_args (generated_outputs ! k) = Inr kw
      \<and> remote (length (requests w')) kw = Completion content (Some function_args)
      \<and> map_of function_args ''sentiment''
          \<notin> {Some ''Positive'', Some ''Neutral'', Some ''Negative''}"
  then have run: "sentiment_openai remote generated_outputs openai_args w =
          (Inl (AssertionError ''OpenAI returned an unrecognized sentiment assessment :(''),
           w'\<lparr>requests := requests w' @ [kw]\<rparr>)"
    by (elim conjE) (rule sentiment_openai_unrecognized)
  have top: "fst (sentiment model remote generated_outputs prompts ''openai'' openai_args w)
      = Inl (AssertionError ''OpenAI returned an unrecognized sentiment assessment :('')"
    unfolding sentiment_def run by simp
  from run top show "sentiment_openai remote generated_outputs openai_args w =
          (Inl (AssertionError ''OpenAI returned an unrecognized sentiment assessment :(''),
           w'\<lparr>requests := requests w' @ [kw]\<rparr>)
      \<and> fst (sentiment model remote generated_outputs prompts ''openai'' openai_args w) =
          Inl (AssertionError ''OpenAI returned an unrecognized sentiment assessment :('')"
    by (rule conjI)
next
  assume h: "model_type \<in> {''openai'', ''azure_openai''}
      \<and> select_context generated_outputs_a generated_outputs_b user_queries sources_a sources_b
          reference_outputs = Inr (fn, data)
      \<and> j < length data
      \<and> score_loop judge (oai_evaluator model_type openai_client judge_args) fn (take j data)
          [] []
          (v\<lparr>progress_bars := progress_bars v
                @ [(''Calculating scores'', py_len user_queries)]\<rparr>)
          = (Inr (score_list, explanation_list), v')
      \<and> call_prompt_fn fn (data ! j) = Inr prompt
      \<and> judge (length (requests v'))
          (judgment_kwargs (oai_evaluator model_type openai_client judge_args) prompt)
          = Completion (Some explanation) arguments
      \<and> judge (Suc (length (requests v')))
          (extraction_kwargs (oai_evaluator model_type openai_client judge_args)
             (pairwise_function_call_prompt explanation))
          = Completion content' (Some function_args')
      \<and> map_of function_args' ''pairwise_comparison'' = Some label
      \<and> label \<notin> {''Response A'', ''Tie'', ''Response B''}"
  then show "fst (pairwise_comparison judge generated_outputs_a generated_outputs_b
               user_queries sources_a sources_b reference_outputs model_type openai_client
               judge_args v)
          = Inl UnrecognizedAssessment
      \<and> stdout (snd (pairwise_comparison judge generated_outputs_a generated_outputs_b
               user_queries sources_a sources_b reference_outputs model_type openai_client
               judge_args v))
          = stdout v"
    by (elim conjE) (rule pairwise_unrecognized)
qed

theorem unrecognized_assessment_aborts_witness:
  "fst (sentiment flat_classifier (scripted_judge ''sentiment'' 1 [''Positive'', ''Mixed''])
          [''fine'', ''odd''] None ''openai'' None initial_world)
     = Inl (AssertionError ''OpenAI returned an unrecognized sentiment assessment :('')
   \<and> fst (pairwise_comparison (scripted_judge ''pairwise_comparison'' 2 [''Tie'', ''Neither''])
            (StrList [''a1'', ''a2'']) (StrList [''b1'', ''b2'']) (StrList [''q1'', ''q2''])
            None None None ''openai'' None None initial_world)
     = Inl UnrecognizedAssessment
   \<and> stdout (snd (pairwise_comparison
            (scripted_judge ''pairwise_comparison'' 2 [''Tie'', ''Neither''])
            (StrList [''a1'', ''a2'']) (StrList [''b1'', ''b2'']) (StrList [''q1'', ''q2''])
            None None None ''openai'' None None initial_world))
     = stdout initial_world"
proof -
  let ?J1 = "scripted_judge ''sentiment'' 1 [''Positive'', ''Mixed'']"
  let ?K = "\<lambda>g. [(''model'', StrArg ''gpt-3.5-turbo''),
                 (''messages'', Messages [(''user'', sentiment_prompt g)]),
                 (''functions'', Functions sentiment_functions),
                 (''function_call'', FunctionCall ''save_sentiment_assessment'')]"
  let ?W1 = "initial_world\<lparr>requests := requests initial_world @ [?K ''fine'']\<rparr>"
  let ?J2 = "scripted_judge ''pairwise_comparison'' 2 [''Tie'', ''Neither'']"
  let ?ev = "oai_evaluator ''openai'' None None"
  let ?v1 = "initial_world\<lparr>progress_bars := progress_bars initial_world
               @ [(''Calculating scores'', py_len (StrList [''q1'', ''q2'']))]\<rparr>"
  let ?V1 = "?v1\<lparr>requests := requests ?v1
               @ [judgment_kwargs ?ev (pairwise_prompt ''a1'' ''b1'' ''q1''),
                  extraction_kwargs ?ev (pairwise_function_call_prompt ''Considered.'')]\<rparr>"
  let ?data = "[[''a1'', ''b1'', ''q1''], [''a2'', ''b2'', ''q2'']]"

  have s1: "1 < length [''fine'', ''odd'']" by simp
  have s2: "sentiment_openai ?J1 (take 1 [''fine'', ''odd'']) None initial_world
              = (Inr [1], ?W1)"
    by (simp add: sentiment_openai_def sentiment_call_kwargs_None chat_completion_create_def
          scripted_judge_sentiment sentiment_assessment_to_score_def initial_world_def)
  have s3: "sentiment_call_kwargs None ([''fine'', ''odd''] ! 1) = Inr (?K ''odd'')"
    by (simp add: sentiment_call_kwargs_None)
  have s4: "?J1 (length (requests ?W1)) (?K ''odd'') = Completion None (Some [(''sentiment'', ''Mixed'')])"
    by (simp add: scripted_judge_sentiment initial_world_def)
  have s5: "map_of [(''sentiment'', ''Mixed'')] ''sentiment''
              \<notin> {Some ''Positive'', Some ''Neutral'', Some ''Negative''}"
    by simp
  note sent = unrecognized_assessment_aborts [where k = 1
      and generated_outputs = "[''fine'', ''odd'']" and remote = ?J1 and openai_args = None
      and w = initial_world and scores = "[1]" and w' = ?W1 and kw = "?K ''odd''"
      and content = None and function_args = "[(''sentiment'', ''Mixed'')]"
      and model = flat_classifier and prompts = None,
      THEN conjunct1, THEN mp, OF conjI [OF s1 conjI [OF s2 conjI [OF s3 conjI [OF s4 s5]]]],
      THEN conjunct2]

  have p1: "''openai'' \<in> {''openai'', ''azure_openai''}" by simp
  have p2: "select_context (StrList [''a1'', ''a2'']) (StrList [''b1'', ''b2''])
              (StrList [''q1'', ''q2'']) None None None = Inr (Prompt, ?data)"
    by (simp add: select_context_def zip3_def)
  have p3: "1 < length ?data" by simp
  have gs: "get_score ?J2 ?ev (pairwise_prompt ''a1'' ''b1'' ''q1'') pairwise_function_call_prompt ?v1
              = (Inr (1 / 2, ''Considered.''), ?V1)"
  proof -
    have j: "?J2 (length (requests ?v1)) (judgment_kwargs ?ev (pairwise_prompt ''a1'' ''b1'' ''q1''))
              = Completion (Some ''Considered.'') None"
      by (rule scripted_judge_judgment)
    have x: "?J2 (Suc (length (requests ?v1)))
               (extraction_kwargs ?ev (pairwise_function_call_prompt ''Considered.''))
              = Completion None (Some [(''pairwise_comparison'', ''Tie'')])"
      by (simp add: scripted_judge_extraction initial_world_def)
    have l: "map_of [(''pairwise_comparison'', ''Tie'')] (ev_argument_name ?ev) = Some ''Tie''"
      by (simp add: oai_evaluator_fields)
    from get_score_eval [where f = pairwise_function_call_prompt, OF j x l]
    show ?thesis by (simp add: oai_evaluator_fields tie_score)
  qed
  have p4: "score_loop ?J2 ?ev Prompt (take 1 ?data) [] [] ?v1
              = (Inr ([1 / 2], [''Considered.'']), ?V1)"
    using gs by simp
  have p5: "call_prompt_fn Prompt (?data ! 1) = Inr (pairwise_prompt ''a2'' ''b2'' ''q2'')"
    by simp
  have p6: "?J2 (length (requests ?V1)) (judgment_kwargs ?ev (pairwise_prompt ''a2'' ''b2'' ''q2''))
              = Completion (Some ''Considered.'') None"
    by (rule scripted_judge_judgment)
  have p7: "?J2 (Suc (length (requests ?V1)))
              (extraction_kwargs ?ev (pairwise_function_call_prompt ''Considered.''))
              = Completion None (Some [(''pairwise_comparison'', ''Neither'')])"
    by (simp add: scripted_judge_extraction initial_world_def)
  have p8: "map_of [(''pairwise_comparison'', ''Neither'')] ''pairwise_comparison'' = Some ''Neither''"
    by simp
  have p9: "''Neither'' \<notin> {''Response A'', ''Tie'', ''Response B''}" by simp
  note pair = unrecognized_assessment_aborts [where model_type = "''openai''"
      and generated_outputs_a = "StrList [''a1'', ''a2'']"
      and generated_outputs_b = "StrList [''b1'', ''b2'']"
      and user_queries = "StrList [''q1'', ''q2'']"
      and sources_a = None and sources_b = None and reference_outputs = None
      and fn = Prompt and data = ?data and j = 1 and judge = ?J2 and openai_client = None
      and judge_args = None and v = initial_world and score_list = "[1 / 2]"
      and explanation_list = "[''Considered.'']" and v' = ?V1
      and prompt = "pairwise_prompt ''a2'' ''b2'' ''q2''" and explanation = "''Considered.''"
      and arguments = None and content' = None
      and function_args' = "[(''pairwise_comparison'', ''Neither'')]" and label = "''Neither''",
      THEN conjunct2, THEN mp,
      OF conjI [OF p1 conjI [OF p2 conjI [OF p3 conjI [OF p4 conjI [OF p5 conjI [OF p6
           conjI [OF p7 conjI [OF p8 p9]]]]]]]]]
  show ?thesis by (rule conjI [OF sent pair])
qed

end
